theory Spec2Isabelle
  imports Complex_Main "HOL-Library.Multiset" "HOL-Library.AList"
begin

section \<open>Strings\<close>

text \<open>
  Strings are lists of characters. The functions of this section are the string primitives
  the routes and the service use: \<^verbatim>\<open>trim\<close>, \<^verbatim>\<open>replace(/<[^>]*>/g, "")\<close>,
  \<^verbatim>\<open>startsWith\<close>, \<^verbatim>\<open>includes\<close>, \<^verbatim>\<open>toString\<close> and \<^verbatim>\<open>padStart\<close> on
  non-negative integers, \<^verbatim>\<open>parseInt(_, 10)\<close> on digit strings and
  \<^verbatim>\<open>match(/DAO-\d{4}-(\d{3})/)\<close>.
\<close>

definition isWhiteSpace :: "char \<Rightarrow> bool" where
  \<comment> \<open>the white space and line terminators that \<^verbatim>\<open>trim\<close> removes, among the 8-bit characters\<close>
  "isWhiteSpace c =
     (c \<in> set [CHR 0x09, CHR 0x0A, CHR 0x0B, CHR 0x0C, CHR 0x0D, CHR 0x20, CHR 0xA0])"

definition trim :: "string \<Rightarrow> string" where
  "trim s = rev (dropWhile isWhiteSpace (rev (dropWhile isWhiteSpace s)))"

text \<open>
  \<^verbatim>\<open>input.replace(/<[^>]*>/g, "")\<close>: scanning from the left, a \<^verbatim>\<open><\<close> that has a
  \<^verbatim>\<open>>\<close> somewhere after it starts a match that ends at the first such \<^verbatim>\<open>>\<close>; the match
  is dropped and the scan goes on behind it. A \<^verbatim>\<open><\<close> with no \<^verbatim>\<open>>\<close> after it is kept.
\<close>

function stripTags :: "string \<Rightarrow> string" where
  "stripTags [] = []"
| "stripTags (c # cs) =
     (if c = CHR ''<'' \<and> CHR ''>'' \<in> set cs
      then stripTags (tl (dropWhile (\<lambda>x. x \<noteq> CHR ''>'') cs))
      else c # stripTags cs)"
  by pat_completeness auto
termination
proof (relation "measure length")
  fix c :: char and cs :: string
  have "length (tl (dropWhile (\<lambda>x. x \<noteq> CHR ''>'') cs)) \<le> length cs"
    using length_dropWhile_le[of "\<lambda>x. x \<noteq> CHR ''>''" cs] by simp
  then show "(tl (dropWhile (\<lambda>x. x \<noteq> CHR ''>'') cs), c # cs) \<in> measure length"
    by simp
qed simp_all

definition sanitizeString :: "string \<Rightarrow> string" where
  "sanitizeString input = trim (stripTags input)"

fun hasTag :: "string \<Rightarrow> bool" where
  \<comment> \<open>some \<^verbatim>\<open><\<close> of the string has a \<^verbatim>\<open>>\<close> after it: the pattern \<^verbatim>\<open><[^>]*>\<close> occurs\<close>
  "hasTag [] = False"
| "hasTag (c # cs) = ((c = CHR ''<'' \<and> CHR ''>'' \<in> set cs) \<or> hasTag cs)"

definition startsWith :: "string \<Rightarrow> string \<Rightarrow> bool" where
  "startsWith s p = (take (length p) s = p)"

fun includes_str :: "string \<Rightarrow> string \<Rightarrow> bool" where
  "includes_str [] sub = (sub = [])"
| "includes_str (c # cs) sub = (startsWith (c # cs) sub \<or> includes_str cs sub)"

definition isDigit :: "char \<Rightarrow> bool" where
  "isDigit c = (c \<in> set ''0123456789'')"

definition digitChar :: "nat \<Rightarrow> char" where
  "digitChar n = ''0123456789'' ! n"

definition digitVal :: "char \<Rightarrow> nat" where
  "digitVal c = length (takeWhile (\<lambda>d. d \<noteq> c) ''0123456789'')"

function toString :: "nat \<Rightarrow> string" where
  "toString n = (if n < 10 then [digitChar n] else toString (n div 10) @ [digitChar (n mod 10)])"
  by pat_completeness auto
termination
  by (relation "measure id") auto

declare toString.simps [simp del]

definition padStart :: "nat \<Rightarrow> char \<Rightarrow> string \<Rightarrow> string" where
  "padStart n c s = replicate (n - length s) c @ s"

definition parseInt :: "string \<Rightarrow> nat" where
  \<comment> \<open>\<^verbatim>\<open>parseInt(n, 10)\<close> on a string of decimal digits\<close>
  "parseInt ds = foldl (\<lambda>a c. 10 * a + digitVal c) 0 ds"

definition matchHere :: "string \<Rightarrow> string option" where
  \<comment> \<open>\<^verbatim>\<open>DAO-\d{4}-(\d{3})\<close> at the start of the string: the captured group\<close>
  "matchHere s =
     (if startsWith s ''DAO-'' \<and> 12 \<le> length s
         \<and> list_all isDigit (take 4 (drop 4 s)) \<and> s ! 8 = CHR ''-''
         \<and> list_all isDigit (take 3 (drop 9 s))
      then Some (take 3 (drop 9 s)) else None)"

fun regexCapture :: "string \<Rightarrow> string option" where
  \<comment> \<open>\<^verbatim>\<open>s.match(/DAO-\d{4}-(\d{3})/)?.[1]\<close>: the pattern is not anchored, the leftmost
      occurrence is taken\<close>
  "regexCapture [] = None"
| "regexCapture (c # cs) =
     (case matchHere (c # cs) of Some g \<Rightarrow> Some g | None \<Rightarrow> regexCapture cs)"

text \<open>
  Numbers are IEEE doubles. Task ids are integer-valued doubles, modelled by the integers they
  denote; the sum of two of them is the exact sum rounded to the nearest double, ties to the
  even significand (53 bits). The sum is exact as long as its magnitude is at most
  \<open>2 ^ 53\<close>; behind that, \<^verbatim>\<open>m + 1\<close> may be \<^verbatim>\<open>m\<close> itself.
\<close>

function doubleExponent :: "int \<Rightarrow> nat" where
  \<comment> \<open>how many low bits of a magnitude do not fit into 53 bits\<close>
  "doubleExponent a = (if a < 2 ^ 53 then 0 else Suc (doubleExponent (a div 2)))"
  by pat_completeness auto
termination
  by (relation "measure nat") auto

declare doubleExponent.simps [simp del]

definition roundDouble :: "int \<Rightarrow> int" where
  "roundDouble x =
     (let a = \<bar>x\<bar>;
          e = doubleExponent a;
          q = a div 2 ^ e;
          r = a mod 2 ^ e
      in sgn x * (if 2 ^ e < 2 * r \<or> (2 * r = 2 ^ e \<and> odd q) then q + 1 else q) * 2 ^ e)"

definition js_plus :: "int \<Rightarrow> int \<Rightarrow> int" where
  \<comment> \<open>\<^verbatim>\<open>a + b\<close> on integer-valued doubles\<close>
  "js_plus a b = roundDouble (a + b)"

fun Math_max :: "'a::linorder list \<Rightarrow> 'a option" where
  \<comment> \<open>\<^verbatim>\<open>Math.max(...xs)\<close>; \<open>None\<close> stands for \<^verbatim>\<open>-Infinity\<close>, the value on no argument\<close>
  "Math_max [] = None"
| "Math_max (x # xs) = Some (fold max xs x)"

fun Array_from_Set :: "'a list \<Rightarrow> 'a list" where
  \<comment> \<open>\<^verbatim>\<open>Array.from(new Set(xs))\<close>: a set iterates in insertion order, so each value stays
      at its first occurrence\<close>
  "Array_from_Set [] = []"
| "Array_from_Set (x # xs) = x # Array_from_Set (filter (\<lambda>y. y \<noteq> x) xs)"

definition js_Map :: "('k \<times> 'v) list \<Rightarrow> ('k \<times> 'v) list" where
  \<comment> \<open>\<^verbatim>\<open>new Map(entries)\<close>: a key keeps the position of its first entry and the value of
      its last one; iteration follows the positions, \<^verbatim>\<open>get\<close> is \<open>map_of\<close>\<close>
  "js_Map entries = foldl (\<lambda>m (k, v). AList.update k v m) [] entries"

section \<open>Data model\<close>

datatype role = chef_equipe | membre_equipe

record TeamMember =
  m_id :: string
  m_name :: string
  m_role :: role
  m_email :: "string option"

text \<open>
  A task. \<^verbatim>\<open>progress\<close> is \<^verbatim>\<open>number | null\<close> (the schemas admit every number from 0 to
  100), the optional fields are absent (\<open>None\<close>) or present. Task ids are integers.
\<close>

record DaoTask =
  t_id :: int
  t_name :: string
  t_progress :: "rat option"
  t_comment :: "string option"
  t_isApplicable :: bool
  t_assignedTo :: "string option"
  t_lastUpdatedBy :: "string option"
  t_lastUpdatedAt :: "string option"

record Dao =
  d_id :: string
  d_numeroListe :: string
  d_objetDossier :: string
  d_reference :: string
  d_autoriteContractante :: string
  d_dateDepot :: string
  d_equipe :: "TeamMember list"
  d_tasks :: "DaoTask list"
  d_createdAt :: string
  d_updatedAt :: string

text \<open>\<^verbatim>\<open>Partial<Dao>\<close> as the routes build it: the keys they may set.\<close>

record DaoUpdates =
  u_numeroListe :: "string option"
  u_objetDossier :: "string option"
  u_reference :: "string option"
  u_autoriteContractante :: "string option"
  u_equipe :: "TeamMember list option"
  u_tasks :: "DaoTask list option"

definition noUpdates :: DaoUpdates where
  "noUpdates = \<lparr>u_numeroListe = None, u_objetDossier = None, u_reference = None,
     u_autoriteContractante = None, u_equipe = None, u_tasks = None\<rparr>"

text \<open>
  What a request brings besides its body: the authenticated user and the readings of the
  clock (\<^verbatim>\<open>new Date().toISOString()\<close>, \<^verbatim>\<open>Date.now().toString()\<close>,
  \<^verbatim>\<open>new Date().getFullYear()\<close>).
\<close>

record ctx =
  userId :: string
  now :: string
  dateNow :: string
  fullYear :: nat

section \<open>The in-memory store and the DAO service\<close>

type_synonym storage = "Dao list"

definition getAll :: "storage \<Rightarrow> Dao list" where
  \<comment> \<open>Modelled from the spec: \<^verbatim>\<open>daoStorage.getAll\<close> (data/daoStorage is not among the
      sources), the single shared collection of the in-memory store.\<close>
  "getAll st = st"

definition findById :: "storage \<Rightarrow> string \<Rightarrow> Dao option" where
  \<comment> \<open>Modelled from the spec: \<^verbatim>\<open>daoStorage.findById\<close>, get by case-file identifier.\<close>
  "findById st i = find (\<lambda>d. d_id d = i) st"

fun findIndexById :: "storage \<Rightarrow> string \<Rightarrow> nat option" where
  \<comment> \<open>Modelled from the spec: \<^verbatim>\<open>daoStorage.findIndexById\<close>; \<open>None\<close> is the index -1.\<close>
  "findIndexById [] i = None"
| "findIndexById (d # ds) i =
     (if d_id d = i then Some 0 else map_option Suc (findIndexById ds i))"

definition updateAtIndex :: "storage \<Rightarrow> nat \<Rightarrow> Dao \<Rightarrow> storage" where
  \<comment> \<open>Modelled from the spec: \<^verbatim>\<open>daoStorage.updateAtIndex\<close>, update-at-index.\<close>
  "updateAtIndex st index d = st[index := d]"

definition add :: "storage \<Rightarrow> Dao \<Rightarrow> storage" where
  \<comment> \<open>Modelled from the spec: \<^verbatim>\<open>daoStorage.add\<close>, the mutation helper "add" of the
      in-memory store: the new case file joins the shared collection.\<close>
  "add st d = st @ [d]"

text \<open>
  \<^verbatim>\<open>DaoService\<close>, on its in-memory branch (\<^verbatim>\<open>useInMemory\<close>); the document database of the
  other branch is an external collaborator.
\<close>

definition getDaoById :: "storage \<Rightarrow> string \<Rightarrow> Dao option" where
  "getDaoById st i = findById st i"

definition generateNextDaoNumber :: "nat \<Rightarrow> storage \<Rightarrow> string" where
  "generateNextDaoNumber year st =
     (let pre = ''DAO-'' @ toString year @ ''-'';
          existing = filter (\<lambda>d. startsWith (d_numeroListe d) pre) (getAll st)
      in if length existing = 0 then pre @ ''001''
         else
           let nums = map (\<lambda>d. case regexCapture (d_numeroListe d) of
                                  Some n \<Rightarrow> parseInt n | None \<Rightarrow> 0) existing;
               next = (case Math_max nums of Some m \<Rightarrow> m + 1 | None \<Rightarrow> 1)
           in pre @ padStart 3 (CHR ''0'') (toString next))"

definition applyUpdates :: "Dao \<Rightarrow> DaoUpdates \<Rightarrow> string \<Rightarrow> Dao" where
  \<comment> \<open>\<^verbatim>\<open>{ ...existing, ...updates, updatedAt }\<close>\<close>
  "applyUpdates existing updates stamp =
     existing\<lparr>
       d_numeroListe := (case u_numeroListe updates of Some v \<Rightarrow> v | None \<Rightarrow> d_numeroListe existing),
       d_objetDossier := (case u_objetDossier updates of Some v \<Rightarrow> v | None \<Rightarrow> d_objetDossier existing),
       d_reference := (case u_reference updates of Some v \<Rightarrow> v | None \<Rightarrow> d_reference existing),
       d_autoriteContractante :=
         (case u_autoriteContractante updates of Some v \<Rightarrow> v | None \<Rightarrow> d_autoriteContractante existing),
       d_equipe := (case u_equipe updates of Some v \<Rightarrow> v | None \<Rightarrow> d_equipe existing),
       d_tasks := (case u_tasks updates of Some v \<Rightarrow> v | None \<Rightarrow> d_tasks existing),
       d_updatedAt := stamp\<rparr>"

definition updateDao :: "ctx \<Rightarrow> storage \<Rightarrow> string \<Rightarrow> DaoUpdates \<Rightarrow> storage \<times> Dao option" where
  "updateDao c st i updates =
     (case findIndexById st i of
        None \<Rightarrow> (st, None)
      | Some index \<Rightarrow>
          (case findById st i of
             None \<Rightarrow> (st, None)
           | Some existing \<Rightarrow>
               let updated = applyUpdates existing updates (now c)
               in (updateAtIndex st index updated, Some updated)))"

record DaoData =
  n_numeroListe :: string
  n_objetDossier :: string
  n_reference :: string
  n_autoriteContractante :: string
  n_dateDepot :: string
  n_equipe :: "TeamMember list"
  n_tasks :: "DaoTask list"

definition createDao :: "ctx \<Rightarrow> storage \<Rightarrow> DaoData \<Rightarrow> storage \<times> Dao" where
  "createDao c st daoData =
     (let numeroListe =
            (if n_numeroListe daoData = [] \<or> includes_str (n_numeroListe daoData) ''001''
             then generateNextDaoNumber (fullYear c) st else n_numeroListe daoData);
          newDao = \<lparr>d_id = dateNow c, d_numeroListe = numeroListe,
            d_objetDossier = n_objetDossier daoData, d_reference = n_reference daoData,
            d_autoriteContractante = n_autoriteContractante daoData,
            d_dateDepot = n_dateDepot daoData, d_equipe = n_equipe daoData,
            d_tasks = n_tasks daoData, d_createdAt = now c, d_updatedAt = now c\<rparr>
      in (add st newDao, newDao))"

section \<open>Notifications, mail and their failures\<close>

text \<open>
  The routes call three collaborators whose sources are not part of the development:
  \<^verbatim>\<open>NotificationService.broadcast\<close>, \<^verbatim>\<open>AuthService.getAllUsers\<close> and the mail transport
  \<^verbatim>\<open>sendMail\<close>. Each call is recorded as an effect, and each may throw: the environment
  says which calls do. Titles and message texts are template literals over the request's
  data; a notification is represented by its kind and the data it carries, a mail by its
  recipient, subject and the data of its body.
\<close>

datatype kind = dao_created | role_update | task_updated | dao_updated | task_reordered
  | task_assigned | task_unassigned | task_created | task_deleted

datatype task_change =
    Applicabilite bool bool
  | Progression rat rat
  | CommentaireModifie
  | Reassignee string string
  | AssigneeA string

datatype team_change = Ajoute string | RoleModifie string role role | Retire string

datatype field = NumeroDeListe | ObjetDuDossier | ReferenceDao | AutoriteContractante | DateDeDepot

datatype detail =
    NoDetail
  | TeamChanges "team_change list"
  | TaskChanges "task_change list"
  | ChangedFields "field list"

record notification =
  nf_kind :: kind
  nf_daoId :: string
  nf_taskId :: "int option"
  nf_assignedTo :: "string option"
  nf_detail :: detail

datatype subject = NouveauDao | MiseAJourEquipe | TacheMiseAJour | DaoMisAJour
  | ReorganisationDesTaches | NouvelleTacheAssignee | MiseAJourDeTache | NouvelleTache
  | NomDeTacheModifie | TacheSupprimee

datatype body =
    BodyDaoCree string string
  | BodyModifications "team_change list"
  | BodyTache string int string "task_change list"
  | BodyDaoMisAJour string "field list"
  | BodyReordonnees string
  | BodyAssignee string string
  | BodyNouvelleTache string string
  | BodyRenommee int string string string
  | BodySupprimee string string

datatype ('s, 'b) effect = Broadcast notification | SendMail string 's 'b

datatype exn = Thrown

record AuthUser =
  au_id :: string
  au_email :: string

record ('s, 'b) env =
  broadcast_throws :: "notification \<Rightarrow> bool"
  getAllUsers_result :: "AuthUser list option"
  sendMail_throws :: "string \<Rightarrow> 's \<Rightarrow> 'b \<Rightarrow> bool"

text \<open>
  A computation performs effects, then returns a value or throws. An effect performed
  before a throw stays performed.
\<close>

type_synonym ('s, 'b, 'a) eff = "('s, 'b) effect list \<times> (exn + 'a)"

definition retE :: "'a \<Rightarrow> ('s, 'b, 'a) eff" where
  "retE a = ([], Inr a)"

definition bindE :: "('s, 'b, 'a) eff \<Rightarrow> ('a \<Rightarrow> ('s, 'b, 'c) eff) \<Rightarrow> ('s, 'b, 'c) eff" where
  "bindE m f =
     (case snd m of
        Inl e \<Rightarrow> (fst m, Inl e)
      | Inr a \<Rightarrow> (fst m @ fst (f a), snd (f a)))"

definition try_catch :: "('s, 'b, 'a) eff \<Rightarrow> ('s, 'b, 'a option) eff" where
  \<comment> \<open>\<^verbatim>\<open>try { ... } catch (_) {}\<close>: \<open>None\<close> when the block threw\<close>
  "try_catch m = (fst m, Inr (case snd m of Inl e \<Rightarrow> None | Inr a \<Rightarrow> Some a))"

fun forEach :: "'x list \<Rightarrow> ('x \<Rightarrow> ('s, 'b, 'a) eff) \<Rightarrow> ('s, 'b, unit) eff" where
  "forEach [] f = retE ()"
| "forEach (x # xs) f = bindE (f x) (\<lambda>_. forEach xs f)"

definition broadcast :: "('s, 'b) env \<Rightarrow> notification \<Rightarrow> ('s, 'b, unit) eff" where
  "broadcast e n = ([Broadcast n], if broadcast_throws e n then Inl Thrown else Inr ())"

definition getAllUsers :: "('s, 'b) env \<Rightarrow> ('s, 'b, AuthUser list) eff" where
  "getAllUsers e = ([], case getAllUsers_result e of None \<Rightarrow> Inl Thrown | Some us \<Rightarrow> Inr us)"

definition sendNotificationEmail ::
  "('s, 'b) env \<Rightarrow> string \<Rightarrow> 's \<Rightarrow> 'b \<Rightarrow> ('s, 'b, unit) eff" where
  "sendNotificationEmail e to subj bdy =
     ([SendMail to subj bdy], if sendMail_throws e to subj bdy then Inl Thrown else Inr ())"

definition sendBulkNotification ::
  "('s, 'b) env \<Rightarrow> string list \<Rightarrow> 's \<Rightarrow> 'b \<Rightarrow> ('s, 'b, nat) eff" where
  "sendBulkNotification e toList subj bdy =
     (let unique = Array_from_Set (filter (\<lambda>to. to \<noteq> []) toList)
      in bindE (forEach unique (\<lambda>to. try_catch (sendNotificationEmail e to subj bdy)))
           (\<lambda>_. retE (length unique)))"

definition emailAllUsers :: "(subject, body) env \<Rightarrow> subject \<Rightarrow> body \<Rightarrow> (subject, body, unit) eff" where
  \<comment> \<open>\<^verbatim>\<open>users = await AuthService.getAllUsers(); await
      EmailService.sendBulkNotification(users.map((u) => u.email), ...)\<close>\<close>
  "emailAllUsers e subj bdy =
     bindE (getAllUsers e) (\<lambda>users.
       bindE (sendBulkNotification e (map au_email users) subj bdy) (\<lambda>_. retE ()))"

section \<open>Responses\<close>

text \<open>
  A response is a status with a case file (\<^verbatim>\<open>res.status(s).json(dao)\<close>, where \<^verbatim>\<open>dao\<close> is
  what \<^verbatim>\<open>updateDao\<close> returned and may be \<^verbatim>\<open>null\<close>), the answer of the delete route with the
  id and name of the removed task, or an error with its status and code.
  \<open>ErrorInvalidIds\<close> is the 400 of the reorder route with the code INVALID_TASK_IDS and the
  list \<^verbatim>\<open>invalidIds\<close>.
\<close>

datatype response =
    Json nat "Dao option"
  | JsonDeleted int string "Dao option"
  | Error nat string
  | ErrorInvalidIds "int list"

type_synonym outcome = "storage \<times> response \<times> (subject, body) effect list"

definition respond :: "storage \<Rightarrow> string \<Rightarrow> (subject, body, response) eff \<Rightarrow> outcome" where
  \<comment> \<open>the handler's outer \<^verbatim>\<open>try { ... } catch (error)\<close>: what escapes the body becomes the
      handler's 500 response\<close>
  "respond st code500 m =
     (case snd m of Inl e \<Rightarrow> (st, Error 500 code500, fst m) | Inr r \<Rightarrow> (st, r, fst m))"

definition invalidId :: "string \<Rightarrow> bool" where
  \<comment> \<open>\<^verbatim>\<open>!id || id.length > 100\<close>\<close>
  "invalidId i = (i = [] \<or> 100 < length i)"

definition truthy :: "string option \<Rightarrow> bool" where
  \<comment> \<open>an optional string is truthy when it is present and not empty\<close>
  "truthy v = (case v of None \<Rightarrow> False | Some s \<Rightarrow> s \<noteq> [])"

section \<open>POST /api/dao: create a case file\<close>

text \<open>
  A task as the create route reads it (\<^verbatim>\<open>t: any\<close>): an entry of the request's
  \<^verbatim>\<open>tasks\<close> or of the template \<^verbatim>\<open>DEFAULT_TASKS\<close>. The template comes from the shared
  module, which is not among the sources: it is a parameter of the route.
\<close>

record RawTask =
  r_id :: "int option"
  r_name :: string
  r_progress :: "rat option"
  r_comment :: "string option"
  r_isApplicable :: bool
  r_assignedTo :: "string option"

record CreateDaoBody =
  c_numeroListe :: string
  c_objetDossier :: string
  c_reference :: string
  c_autoriteContractante :: string
  c_dateDepot :: string
  c_equipe :: "TeamMember list"
  c_tasks :: "RawTask list option"

definition sanitizeMember :: "TeamMember \<Rightarrow> TeamMember" where
  "sanitizeMember member = member\<lparr>m_name := sanitizeString (m_name member)\<rparr>"

definition seedTasks :: "RawTask list \<Rightarrow> RawTask list option \<Rightarrow> RawTask list" where
  "seedTasks DEFAULT_TASKS supplied =
     (let template = map (\<lambda>task. task\<lparr>r_progress := None, r_comment := Some []\<rparr>) DEFAULT_TASKS
      in case supplied of
           None \<Rightarrow> template
         | Some ts \<Rightarrow> if length ts \<noteq> 0 then ts else template)"

definition stampTask :: "ctx \<Rightarrow> RawTask \<times> nat \<Rightarrow> DaoTask" where
  "stampTask c = (\<lambda>(t, idx).
     \<lparr>t_id = (case r_id t of Some i \<Rightarrow> i | None \<Rightarrow> int idx + 1),
      t_name = sanitizeString (r_name t),
      t_progress = (if r_isApplicable t then r_progress t else None),
      t_comment = (if truthy (r_comment t) then map_option sanitizeString (r_comment t) else None),
      t_isApplicable = r_isApplicable t,
      t_assignedTo = r_assignedTo t,
      t_lastUpdatedBy = Some (userId c),
      t_lastUpdatedAt = Some (now c)\<rparr>)"

definition post_dao ::
  "(subject, body) env \<Rightarrow> ctx \<Rightarrow> RawTask list \<Rightarrow> storage \<Rightarrow> CreateDaoBody \<Rightarrow> outcome" where
  "post_dao e c DEFAULT_TASKS st validatedData =
     (let raw = seedTasks DEFAULT_TASKS (c_tasks validatedData);
          tasks = map (stampTask c) (zip raw [0..<length raw]);
          created = createDao c st
            \<lparr>n_numeroListe = sanitizeString (c_numeroListe validatedData),
             n_objetDossier = sanitizeString (c_objetDossier validatedData),
             n_reference = sanitizeString (c_reference validatedData),
             n_autoriteContractante = sanitizeString (c_autoriteContractante validatedData),
             n_dateDepot = c_dateDepot validatedData,
             n_equipe = map sanitizeMember (c_equipe validatedData),
             n_tasks = tasks\<rparr>;
          newDao = snd created
      in respond (fst created) ''CREATE_ERROR''
           (bindE (try_catch
              (bindE (broadcast e \<lparr>nf_kind = dao_created, nf_daoId = d_id newDao, nf_taskId = None,
                        nf_assignedTo = None, nf_detail = NoDetail\<rparr>)
                 (\<lambda>_. emailAllUsers e NouveauDao
                        (BodyDaoCree (d_numeroListe newDao) (d_objetDossier newDao)))))
            (\<lambda>_. retE (Json 201 (Some newDao)))))"

section \<open>PUT /api/dao/:id: update a case file\<close>

record UpdateDaoBody =
  v_numeroListe :: "string option"
  v_objetDossier :: "string option"
  v_reference :: "string option"
  v_autoriteContractante :: "string option"
  v_dateDepot :: "string option"
  v_equipe :: "TeamMember list option"
  v_tasks :: "DaoTask list option"

definition sanitizedIfTruthy :: "string option \<Rightarrow> string option" where
  \<comment> \<open>\<^verbatim>\<open>if (validatedData.x) updates.x = sanitizeString(validatedData.x)\<close>\<close>
  "sanitizedIfTruthy v = (if truthy v then map_option sanitizeString v else None)"

definition buildUpdates :: "UpdateDaoBody \<Rightarrow> DaoUpdates" where
  "buildUpdates validatedData =
     \<lparr>u_numeroListe = sanitizedIfTruthy (v_numeroListe validatedData),
      u_objetDossier = sanitizedIfTruthy (v_objetDossier validatedData),
      u_reference = sanitizedIfTruthy (v_reference validatedData),
      u_autoriteContractante = sanitizedIfTruthy (v_autoriteContractante validatedData),
      u_equipe = map_option (map sanitizeMember) (v_equipe validatedData),
      u_tasks = v_tasks validatedData\<rparr>"

definition teamChanges :: "TeamMember list \<Rightarrow> TeamMember list \<Rightarrow> team_change list" where
  "teamChanges beforeEquipe afterEquipe =
     (let beforeMap = js_Map (map (\<lambda>m. (m_id m, m)) beforeEquipe);
          afterMap = js_Map (map (\<lambda>m. (m_id m, m)) afterEquipe)
      in concat (map (\<lambda>(idKey, after).
                   case map_of beforeMap idKey of
                     None \<Rightarrow> [Ajoute (m_name after)]
                   | Some prev \<Rightarrow>
                       if m_role prev \<noteq> m_role after
                       then [RoleModifie (m_name after) (m_role prev) (m_role after)] else [])
                 afterMap)
         @ concat (map (\<lambda>(idKey, prev).
                     if map_of afterMap idKey = None then [Retire (m_name prev)] else [])
                   beforeMap))"

definition teamBlock ::
  "(subject, body) env \<Rightarrow> Dao \<Rightarrow> Dao \<Rightarrow> (subject, body, unit) eff" where
  "teamBlock e before updated =
     (let changed = teamChanges (d_equipe before) (d_equipe updated)
      in if 0 < length changed
         then bindE (broadcast e \<lparr>nf_kind = role_update, nf_daoId = d_id updated, nf_taskId = None,
                       nf_assignedTo = None, nf_detail = TeamChanges changed\<rparr>)
                (\<lambda>_. let emails = take 50 (map (\<lambda>m. the (m_email m))
                                     (filter (\<lambda>m. truthy (m_email m))
                                        (d_equipe updated @ d_equipe before)))
                     in if length emails \<noteq> 0
                        then bindE (sendBulkNotification e emails MiseAJourEquipe
                                      (BodyModifications changed)) (\<lambda>_. retE ())
                        else retE ())
         else retE ())"

definition orZero :: "rat option \<Rightarrow> rat" where
  \<comment> \<open>\<^verbatim>\<open>progress ?? 0\<close>\<close>
  "orZero p = (case p of None \<Rightarrow> 0 | Some v \<Rightarrow> v)"

definition orAucun :: "string option \<Rightarrow> string" where
  \<comment> \<open>\<^verbatim>\<open>assignedTo ?? "aucun"\<close>\<close>
  "orAucun a = (case a of None \<Rightarrow> ''aucun'' | Some v \<Rightarrow> v)"

definition assignmentChange :: "DaoTask \<Rightarrow> DaoTask \<Rightarrow> task_change list" where
  "assignmentChange prev t =
     (if t_assignedTo prev \<noteq> t_assignedTo t
      then [if truthy (t_assignedTo prev)
            then Reassignee (the (t_assignedTo prev)) (orAucun (t_assignedTo t))
            else AssigneeA (orAucun (t_assignedTo t))]
      else [])"

definition taskDiffs :: "DaoTask \<Rightarrow> DaoTask \<Rightarrow> task_change list" where
  \<comment> \<open>the \<^verbatim>\<open>diffs\<close> of the case-file update route\<close>
  "taskDiffs prev t =
     (if t_isApplicable prev \<noteq> t_isApplicable t
      then [Applicabilite (t_isApplicable prev) (t_isApplicable t)] else [])
     @ (if orZero (t_progress prev) \<noteq> orZero (t_progress t) \<and> t_isApplicable t
        then [Progression (orZero (t_progress prev)) (orZero (t_progress t))] else [])
     @ (if t_comment prev \<noteq> t_comment t then [CommentaireModifie] else [])
     @ assignmentChange prev t"

fun tasksLoop ::
  "(subject, body) env \<Rightarrow> Dao \<Rightarrow> string \<Rightarrow> (int \<times> DaoTask) list \<Rightarrow> DaoTask list
     \<Rightarrow> (subject, body, bool) eff" where
  \<comment> \<open>\<^verbatim>\<open>for (const t of updated.tasks)\<close>; the value is the flag \<^verbatim>\<open>hasTaskChanges\<close>\<close>
  "tasksLoop e updated i byIdBefore [] = retE False"
| "tasksLoop e updated i byIdBefore (t # ts) =
     (case map_of byIdBefore (t_id t) of
        None \<Rightarrow> tasksLoop e updated i byIdBefore ts
      | Some prev \<Rightarrow>
          let diffs = taskDiffs prev t
          in if 0 < length diffs
             then bindE (broadcast e \<lparr>nf_kind = task_updated, nf_daoId = i, nf_taskId = Some (t_id t),
                           nf_assignedTo = None, nf_detail = TaskChanges diffs\<rparr>)
                    (\<lambda>_. bindE (try_catch (emailAllUsers e TacheMiseAJour
                                   (BodyTache (d_numeroListe updated) (t_id t) (t_name t) diffs)))
                       (\<lambda>_. bindE (tasksLoop e updated i byIdBefore ts) (\<lambda>_. retE True)))
             else tasksLoop e updated i byIdBefore ts)"

definition tasksBlock ::
  "(subject, body) env \<Rightarrow> Dao \<Rightarrow> Dao \<Rightarrow> string \<Rightarrow> (subject, body, bool) eff" where
  "tasksBlock e before updated i =
     tasksLoop e updated i (js_Map (map (\<lambda>t. (t_id t, t)) (d_tasks before))) (d_tasks updated)"

definition changeBlock ::
  "(subject, body) env \<Rightarrow> Dao option \<Rightarrow> Dao \<Rightarrow> string \<Rightarrow> UpdateDaoBody
     \<Rightarrow> (subject, body, bool) eff" where
  \<comment> \<open>the body of the first \<^verbatim>\<open>try\<close> of the route, up to the assignment of
      \<^verbatim>\<open>res.hasTaskChanges\<close>\<close>
  "changeBlock e before updated i validatedData =
     bindE (case before of
              Some b \<Rightarrow> if v_equipe validatedData \<noteq> None then teamBlock e b updated else retE ()
            | None \<Rightarrow> retE ())
       (\<lambda>_. case before of
              Some b \<Rightarrow> if v_tasks validatedData \<noteq> None then tasksBlock e b updated i
                        else retE False
            | None \<Rightarrow> retE False)"

definition changedFields :: "Dao \<Rightarrow> Dao \<Rightarrow> field list" where
  "changedFields before updated =
     (if d_numeroListe before \<noteq> d_numeroListe updated then [NumeroDeListe] else [])
     @ (if d_objetDossier before \<noteq> d_objetDossier updated then [ObjetDuDossier] else [])
     @ (if d_reference before \<noteq> d_reference updated then [ReferenceDao] else [])
     @ (if d_autoriteContractante before \<noteq> d_autoriteContractante updated
        then [AutoriteContractante] else [])
     @ (if d_dateDepot before \<noteq> d_dateDepot updated then [DateDeDepot] else [])"

definition genericBlock ::
  "(subject, body) env \<Rightarrow> Dao option \<Rightarrow> Dao \<Rightarrow> bool \<Rightarrow> (subject, body, unit) eff" where
  \<comment> \<open>the body of the second \<^verbatim>\<open>try\<close>; the flag is \<^verbatim>\<open>res.hasTaskChanges === true\<close>\<close>
  "genericBlock e before updated hasTaskChanges =
     (let fields = (case before of Some b \<Rightarrow> changedFields b updated | None \<Rightarrow> [])
      in if 0 < length fields \<or> \<not> hasTaskChanges
         then bindE (broadcast e \<lparr>nf_kind = dao_updated, nf_daoId = d_id updated, nf_taskId = None,
                       nf_assignedTo = None, nf_detail = ChangedFields fields\<rparr>)
                (\<lambda>_. emailAllUsers e DaoMisAJour (BodyDaoMisAJour (d_numeroListe updated) fields))
         else retE ())"

definition put_dao ::
  "(subject, body) env \<Rightarrow> ctx \<Rightarrow> storage \<Rightarrow> string \<Rightarrow> UpdateDaoBody \<Rightarrow> outcome" where
  "put_dao e c st i validatedData =
     (if invalidId i then (st, Error 400 ''INVALID_ID'', [])
      else
        let before = getDaoById st i;
            result = updateDao c st i (buildUpdates validatedData)
        in case snd result of
             None \<Rightarrow> (fst result, Error 404 ''DAO_NOT_FOUND'', [])
           | Some updated \<Rightarrow>
               respond (fst result) ''UPDATE_ERROR''
                 (bindE (try_catch (changeBlock e before updated i validatedData))
                    (\<lambda>flag. bindE (try_catch (genericBlock e before updated (flag = Some True)))
                       (\<lambda>_. retE (Json 200 (Some updated))))))"

section \<open>PUT /api/dao/:id/tasks/reorder\<close>

definition put_tasks_reorder ::
  "(subject, body) env \<Rightarrow> ctx \<Rightarrow> storage \<Rightarrow> string \<Rightarrow> int list \<Rightarrow> outcome" where
  "put_tasks_reorder e c st i taskIds =
     (if invalidId i then (st, Error 400 ''INVALID_DAO_ID'', [])
      else if length taskIds = 0 then (st, Error 400 ''INVALID_TASK_IDS'', [])
      else
        case getDaoById st i of
          None \<Rightarrow> (st, Error 404 ''DAO_NOT_FOUND'', [])
        | Some dao \<Rightarrow>
            let existingTaskIds = map t_id (d_tasks dao);
                invalidIds = filter (\<lambda>tid. tid \<notin> set existingTaskIds) taskIds
            in if 0 < length invalidIds then (st, ErrorInvalidIds invalidIds, [])
               else if length taskIds \<noteq> length (d_tasks dao)
                       \<or> \<not> list_all (\<lambda>tid. tid \<in> set taskIds) existingTaskIds
               then (st, Error 400 ''INCOMPLETE_TASK_LIST'', [])
               else
                 let reorderedTasks =
                       map (\<lambda>taskId. the (find (\<lambda>task. t_id task = taskId) (d_tasks dao))) taskIds;
                     result = updateDao c st i (noUpdates\<lparr>u_tasks := Some reorderedTasks\<rparr>)
                 in respond (fst result) ''REORDER_ERROR''
                      (bindE (try_catch
                         (bindE (broadcast e \<lparr>nf_kind = task_reordered, nf_daoId = i,
                                   nf_taskId = None, nf_assignedTo = None, nf_detail = NoDetail\<rparr>)
                            (\<lambda>_. emailAllUsers e ReorganisationDesTaches (BodyReordonnees i))))
                       (\<lambda>_. retE (Json 200 (snd result)))))"

section \<open>PUT /api/dao/:id/tasks/:taskId: update the fields of a task\<close>

record TaskUpdateBody =
  tu_progress :: "rat option"
  tu_comment :: "string option"
  tu_isApplicable :: "bool option"
  tu_assignedTo :: "string option"

definition applyTaskUpdate :: "ctx \<Rightarrow> TaskUpdateBody \<Rightarrow> DaoTask \<Rightarrow> DaoTask" where
  \<comment> \<open>the assignments to the fields of \<^verbatim>\<open>task\<close>, each made when the request has the field\<close>
  "applyTaskUpdate c validatedData task =
     task\<lparr>
       t_progress := (case tu_progress validatedData of Some p \<Rightarrow> Some p | None \<Rightarrow> t_progress task),
       t_comment := (case tu_comment validatedData of
                       Some cm \<Rightarrow> Some (sanitizeString cm) | None \<Rightarrow> t_comment task),
       t_isApplicable := (case tu_isApplicable validatedData of
                            Some b \<Rightarrow> b | None \<Rightarrow> t_isApplicable task),
       t_assignedTo := (case tu_assignedTo validatedData of
                          Some a \<Rightarrow> Some (sanitizeString a) | None \<Rightarrow> t_assignedTo task),
       t_lastUpdatedBy := Some (userId c),
       t_lastUpdatedAt := Some (now c)\<rparr>"

fun replaceFirst :: "('a \<Rightarrow> bool) \<Rightarrow> 'a \<Rightarrow> 'a list \<Rightarrow> 'a list" where
  \<comment> \<open>the array after the element that \<^verbatim>\<open>find\<close> returned has been changed in place\<close>
  "replaceFirst P y [] = []"
| "replaceFirst P y (x # xs) = (if P x then y # xs else x # replaceFirst P y xs)"

definition taskChanges :: "DaoTask \<Rightarrow> DaoTask \<Rightarrow> task_change list" where
  \<comment> \<open>the \<^verbatim>\<open>changes\<close> of the task update route\<close>
  "taskChanges previous task =
     (if orZero (t_progress previous) \<noteq> orZero (t_progress task)
      then [Progression (orZero (t_progress previous)) (orZero (t_progress task))] else [])
     @ (if t_comment previous \<noteq> t_comment task then [CommentaireModifie] else [])
     @ (if t_isApplicable previous \<noteq> t_isApplicable task
        then [Applicabilite (t_isApplicable previous) (t_isApplicable task)] else [])
     @ assignmentChange previous task"

definition taskNotify ::
  "(subject, body) env \<Rightarrow> Dao \<Rightarrow> string \<Rightarrow> DaoTask \<Rightarrow> DaoTask \<Rightarrow> (subject, body, unit) eff" where
  "taskNotify e dao i previous task =
     (let changes = taskChanges previous task
      in bindE
           (if t_assignedTo previous \<noteq> t_assignedTo task
            then
              let isUnassign = \<not> truthy (t_assignedTo task)
              in bindE (broadcast e
                          \<lparr>nf_kind = (if isUnassign then task_unassigned else task_assigned),
                           nf_daoId = i, nf_taskId = Some (t_id task),
                           nf_assignedTo = t_assignedTo task, nf_detail = TaskChanges changes\<rparr>)
                   (\<lambda>_. let newAssignee =
                               (case t_assignedTo task of
                                  None \<Rightarrow> None
                                | Some a \<Rightarrow> find (\<lambda>m. m_id m = a) (d_equipe dao))
                        in case newAssignee of
                             None \<Rightarrow> retE ()
                           | Some m \<Rightarrow>
                               if truthy (m_email m)
                               then sendNotificationEmail e (the (m_email m)) NouvelleTacheAssignee
                                      (BodyAssignee (t_name task) (d_numeroListe dao))
                               else retE ())
            else broadcast e \<lparr>nf_kind = task_updated, nf_daoId = i, nf_taskId = Some (t_id task),
                   nf_assignedTo = None, nf_detail = TaskChanges changes\<rparr>)
           (\<lambda>_. bindE (try_catch (emailAllUsers e MiseAJourDeTache
                          (BodyTache (d_numeroListe dao) (t_id task) (t_name task) changes)))
              (\<lambda>_. retE ())))"

definition put_task ::
  "(subject, body) env \<Rightarrow> ctx \<Rightarrow> storage \<Rightarrow> string \<Rightarrow> int option \<Rightarrow> TaskUpdateBody
     \<Rightarrow> outcome" where
  \<comment> \<open>\<open>taskId\<close> is \<^verbatim>\<open>parseInt(req.params.taskId)\<close>, \<open>None\<close> for \<^verbatim>\<open>NaN\<close>\<close>
  "put_task e c st i taskId validatedData =
     (if invalidId i then (st, Error 400 ''INVALID_DAO_ID'', [])
      else
        case taskId of
          None \<Rightarrow> (st, Error 400 ''INVALID_TASK_ID'', [])
        | Some parsedTaskId \<Rightarrow>
            if parsedTaskId < 1 then (st, Error 400 ''INVALID_TASK_ID'', [])
            else
              case getDaoById st i of
                None \<Rightarrow> (st, Error 404 ''DAO_NOT_FOUND'', [])
              | Some dao \<Rightarrow>
                  (case find (\<lambda>t. t_id t = parsedTaskId) (d_tasks dao) of
                     None \<Rightarrow> (st, Error 404 ''TASK_NOT_FOUND'', [])
                   | Some previous \<Rightarrow>
                       let task = applyTaskUpdate c validatedData previous;
                           tasks = replaceFirst (\<lambda>t. t_id t = parsedTaskId) task (d_tasks dao);
                           result = updateDao c st i (noUpdates\<lparr>u_tasks := Some tasks\<rparr>)
                       in respond (fst result) ''TASK_UPDATE_ERROR''
                            (bindE (try_catch (taskNotify e dao i previous task))
                               (\<lambda>_. retE (Json 200 (snd result))))))"

section \<open>POST /api/dao/:daoId/tasks: add a task\<close>

record CreateTaskBody =
  ct_name :: string
  ct_isApplicable :: bool
  ct_progress :: "rat option"
  ct_comment :: "string option"
  ct_assignedTo :: "string option"

definition newTaskId :: "int list \<Rightarrow> int" where
  \<comment> \<open>\<^verbatim>\<open>existingIds.length > 0 ? Math.max(...existingIds) + 1 : 1\<close>\<close>
  "newTaskId existingIds =
     (case Math_max existingIds of Some m \<Rightarrow> js_plus m 1 | None \<Rightarrow> 1)"

definition post_task ::
  "(subject, body) env \<Rightarrow> ctx \<Rightarrow> storage \<Rightarrow> string \<Rightarrow> CreateTaskBody \<Rightarrow> outcome" where
  "post_task e c st daoId validatedData =
     (if invalidId daoId then (st, Error 400 ''INVALID_DAO_ID'', [])
      else
        case getDaoById st daoId of
          None \<Rightarrow> (st, Error 404 ''DAO_NOT_FOUND'', [])
        | Some dao \<Rightarrow>
            let existingIds = map t_id (d_tasks dao);
                newTask =
                  \<lparr>t_id = newTaskId existingIds,
                   t_name = sanitizeString (ct_name validatedData),
                   t_progress = (if ct_isApplicable validatedData
                                 then ct_progress validatedData else None),
                   t_comment = (if truthy (ct_comment validatedData)
                                then map_option sanitizeString (ct_comment validatedData) else None),
                   t_isApplicable = ct_isApplicable validatedData,
                   t_assignedTo = ct_assignedTo validatedData,
                   t_lastUpdatedBy = Some (userId c),
                   t_lastUpdatedAt = Some (now c)\<rparr>;
                result = updateDao c st daoId (noUpdates\<lparr>u_tasks := Some (d_tasks dao @ [newTask])\<rparr>)
            in respond (fst result) ''ADD_TASK_ERROR''
                 (bindE (try_catch
                    (bindE (broadcast e \<lparr>nf_kind = task_created, nf_daoId = daoId,
                              nf_taskId = Some (t_id newTask), nf_assignedTo = None,
                              nf_detail = NoDetail\<rparr>)
                       (\<lambda>_. emailAllUsers e NouvelleTache (BodyNouvelleTache (t_name newTask) daoId))))
                  (\<lambda>_. retE (Json 201 (snd result)))))"

section \<open>PUT /api/dao/:daoId/tasks/:taskId/name: rename a task\<close>

definition put_task_name ::
  "(subject, body) env \<Rightarrow> ctx \<Rightarrow> storage \<Rightarrow> string \<Rightarrow> int option \<Rightarrow> string \<Rightarrow> outcome" where
  "put_task_name e c st daoId taskId newName =
     (if invalidId daoId then (st, Error 400 ''INVALID_DAO_ID'', [])
      else
        case taskId of
          None \<Rightarrow> (st, Error 400 ''INVALID_TASK_ID'', [])
        | Some parsedTaskId \<Rightarrow>
            if parsedTaskId < 1 then (st, Error 400 ''INVALID_TASK_ID'', [])
            else
              case getDaoById st daoId of
                None \<Rightarrow> (st, Error 404 ''DAO_NOT_FOUND'', [])
              | Some dao \<Rightarrow>
                  (case find (\<lambda>t. t_id t = parsedTaskId) (d_tasks dao) of
                     None \<Rightarrow> (st, Error 404 ''TASK_NOT_FOUND'', [])
                   | Some old \<Rightarrow>
                       let oldName = t_name old;
                           task = old\<lparr>t_name := sanitizeString newName,
                                      t_lastUpdatedBy := Some (userId c),
                                      t_lastUpdatedAt := Some (now c)\<rparr>;
                           tasks = replaceFirst (\<lambda>t. t_id t = parsedTaskId) task (d_tasks dao);
                           result = updateDao c st daoId (noUpdates\<lparr>u_tasks := Some tasks\<rparr>)
                       in respond (fst result) ''UPDATE_TASK_NAME_ERROR''
                            (bindE (try_catch
                               (bindE (broadcast e \<lparr>nf_kind = task_updated, nf_daoId = daoId,
                                         nf_taskId = Some parsedTaskId, nf_assignedTo = None,
                                         nf_detail = NoDetail\<rparr>)
                                  (\<lambda>_. emailAllUsers e NomDeTacheModifie
                                         (BodyRenommee parsedTaskId daoId oldName (t_name task)))))
                             (\<lambda>_. retE (Json 200 (snd result))))))"

section \<open>DELETE /api/dao/:daoId/tasks/:taskId\<close>

fun findIndex :: "('a \<Rightarrow> bool) \<Rightarrow> 'a list \<Rightarrow> nat option" where
  \<comment> \<open>\<open>None\<close> is the index -1\<close>
  "findIndex P [] = None"
| "findIndex P (x # xs) = (if P x then Some 0 else map_option Suc (findIndex P xs))"

definition splice1 :: "nat \<Rightarrow> 'a list \<Rightarrow> 'a list" where
  \<comment> \<open>the array after \<^verbatim>\<open>splice(index, 1)\<close>\<close>
  "splice1 index xs = take index xs @ drop (Suc index) xs"

definition delete_task ::
  "(subject, body) env \<Rightarrow> ctx \<Rightarrow> storage \<Rightarrow> string \<Rightarrow> int option \<Rightarrow> outcome" where
  "delete_task e c st daoId taskId =
     (if invalidId daoId then (st, Error 400 ''INVALID_DAO_ID'', [])
      else
        case taskId of
          None \<Rightarrow> (st, Error 400 ''INVALID_TASK_ID'', [])
        | Some parsedTaskId \<Rightarrow>
            if parsedTaskId < 1 then (st, Error 400 ''INVALID_TASK_ID'', [])
            else
              case getDaoById st daoId of
                None \<Rightarrow> (st, Error 404 ''DAO_NOT_FOUND'', [])
              | Some dao \<Rightarrow>
                  (case findIndex (\<lambda>t. t_id t = parsedTaskId) (d_tasks dao) of
                     None \<Rightarrow> (st, Error 404 ''TASK_NOT_FOUND'', [])
                   | Some taskIndex \<Rightarrow>
                       let deletedTask = d_tasks dao ! taskIndex;
                           tasks = splice1 taskIndex (d_tasks dao);
                           result = updateDao c st daoId (noUpdates\<lparr>u_tasks := Some tasks\<rparr>)
                       in respond (fst result) ''DELETE_TASK_ERROR''
                            (bindE (try_catch
                               (bindE (broadcast e \<lparr>nf_kind = task_deleted, nf_daoId = daoId,
                                         nf_taskId = Some (t_id deletedTask), nf_assignedTo = None,
                                         nf_detail = NoDetail\<rparr>)
                                  (\<lambda>_. emailAllUsers e TacheSupprimee
                                         (BodySupprimee (t_name deletedTask) daoId))))
                             (\<lambda>_. retE (JsonDeleted (t_id deletedTask) (t_name deletedTask)
                                           (snd result))))))"

section \<open>The mutation routes together\<close>

datatype request =
    PostDao CreateDaoBody
  | PutDao string UpdateDaoBody
  | PutTasksReorder string "int list"
  | PutTask string "int option" TaskUpdateBody
  | PostTask string CreateTaskBody
  | PutTaskName string "int option" string
  | DeleteTask string "int option"

fun handle ::
  "(subject, body) env \<Rightarrow> ctx \<Rightarrow> RawTask list \<Rightarrow> storage \<Rightarrow> request \<Rightarrow> outcome" where
  "handle e c DEFAULT_TASKS st (PostDao b) = post_dao e c DEFAULT_TASKS st b"
| "handle e c DEFAULT_TASKS st (PutDao i b) = put_dao e c st i b"
| "handle e c DEFAULT_TASKS st (PutTasksReorder i taskIds) = put_tasks_reorder e c st i taskIds"
| "handle e c DEFAULT_TASKS st (PutTask i taskId b) = put_task e c st i taskId b"
| "handle e c DEFAULT_TASKS st (PostTask daoId b) = post_task e c st daoId b"
| "handle e c DEFAULT_TASKS st (PutTaskName daoId taskId newName) =
     put_task_name e c st daoId taskId newName"
| "handle e c DEFAULT_TASKS st (DeleteTask daoId taskId) = delete_task e c st daoId taskId"

section \<open>Reading the effects of a request\<close>

fun broadcasts :: "('s, 'b) effect list \<Rightarrow> notification list" where
  \<comment> \<open>the notifications handed to \<^verbatim>\<open>NotificationService.broadcast\<close>, in order\<close>
  "broadcasts [] = []"
| "broadcasts (Broadcast n # es) = n # broadcasts es"
| "broadcasts (SendMail to subj bdy # es) = broadcasts es"

section \<open>The numbering rule in the words of the specification\<close>



section \<open>Concrete inputs\<close>

text \<open>Environments, stores and requests at which the results below are evaluated.\<close>

definition flaky :: "(nat, nat) env" where
  \<comment> \<open>every broadcast throws, the user directory throws, mail to one address throws\<close>
  "flaky = \<lparr>broadcast_throws = (\<lambda>n. True), getAllUsers_result = None,
     sendMail_throws = (\<lambda>to s b. to = ''a@x.org'')\<rparr>"

definition ctx0 :: ctx where
  "ctx0 = \<lparr>userId = ''u1'', now = ''2025-03-01T10:00:00.000Z'', dateNow = ''1740823200000'',
     fullYear = 2025\<rparr>"

definition quiet :: "(subject, body) env" where
  \<comment> \<open>no call throws; two users are known\<close>
  "quiet = \<lparr>broadcast_throws = (\<lambda>n. False),
     getAllUsers_result = Some [\<lparr>au_id = ''u1'', au_email = ''a@x.org''\<rparr>,
                               \<lparr>au_id = ''u2'', au_email = ''b@x.org''\<rparr>],
     sendMail_throws = (\<lambda>to s b. False)\<rparr>"

definition failing :: "(subject, body) env" where
  \<comment> \<open>every broadcast, the user directory and every mail throw\<close>
  "failing = \<lparr>broadcast_throws = (\<lambda>n. True), getAllUsers_result = None,
     sendMail_throws = (\<lambda>to s b. True)\<rparr>"

definition mkTask :: "int \<Rightarrow> string \<Rightarrow> DaoTask" where
  "mkTask i nm = \<lparr>t_id = i, t_name = nm, t_progress = Some 40, t_comment = None,
     t_isApplicable = True, t_assignedTo = Some ''m1'', t_lastUpdatedBy = None,
     t_lastUpdatedAt = None\<rparr>"

definition team0 :: "TeamMember list" where
  "team0 = [\<lparr>m_id = ''m1'', m_name = ''Awa'', m_role = chef_equipe, m_email = Some ''a@x.org''\<rparr>,
            \<lparr>m_id = ''m2'', m_name = ''Bob'', m_role = membre_equipe, m_email = None\<rparr>]"

definition dao1 :: Dao where
  "dao1 = \<lparr>d_id = ''d1'', d_numeroListe = ''DAO-2025-001'', d_objetDossier = ''Route'',
     d_reference = ''R-1'', d_autoriteContractante = ''Mairie'', d_dateDepot = ''2025-06-01'',
     d_equipe = team0,
     d_tasks = [mkTask 1 ''Resume'', mkTask 2 ''Caution'', mkTask 3 ''Offre''],
     d_createdAt = ''2025-01-01T00:00:00.000Z'', d_updatedAt = ''2025-01-01T00:00:00.000Z''\<rparr>"

definition store1 :: storage where
  "store1 = [dao1]"

definition newTaskBody :: CreateTaskBody where
  "newTaskBody = \<lparr>ct_name = ''Devis'', ct_isApplicable = True, ct_progress = None,
     ct_comment = None, ct_assignedTo = None\<rparr>"

definition notApplicableBody :: TaskUpdateBody where
  \<comment> \<open>\<^verbatim>\<open>{ "isApplicable": false, "progress": 50 }\<close>\<close>
  "notApplicableBody = \<lparr>tu_progress = Some 50, tu_comment = None, tu_isApplicable = Some False,
     tu_assignedTo = None\<rparr>"

definition notApplicableOnly :: TaskUpdateBody where
  \<comment> \<open>\<^verbatim>\<open>{ "isApplicable": false }\<close>\<close>
  "notApplicableOnly = \<lparr>tu_progress = None, tu_comment = None, tu_isApplicable = Some False,
     tu_assignedTo = None\<rparr>"

definition daoNoTasks :: Dao where
  "daoNoTasks = dao1\<lparr>d_tasks := []\<rparr>"

definition template0 :: "RawTask list" where
  \<comment> \<open>a two-entry stand-in for \<^verbatim>\<open>DEFAULT_TASKS\<close>\<close>
  "template0 =
     [\<lparr>r_id = Some 1, r_name = ''Resume'', r_progress = None, r_comment = None,
       r_isApplicable = True, r_assignedTo = None\<rparr>,
      \<lparr>r_id = Some 2, r_name = ''Caution'', r_progress = None, r_comment = None,
       r_isApplicable = True, r_assignedTo = None\<rparr>]"

definition createBody0 :: CreateDaoBody where
  \<comment> \<open>no tasks, and the sentinel sequence number\<close>
  "createBody0 = \<lparr>c_numeroListe = ''DAO-2025-001'', c_objetDossier = ''Pont'',
     c_reference = ''R-2'', c_autoriteContractante = ''Region'', c_dateDepot = ''2025-07-01'',
     c_equipe = team0, c_tasks = None\<rparr>"

definition reassignBody :: TaskUpdateBody where
  \<comment> \<open>\<^verbatim>\<open>{ "assignedTo": "m2" }\<close>\<close>
  "reassignBody = \<lparr>tu_progress = None, tu_comment = None, tu_isApplicable = None,
     tu_assignedTo = Some ''m2''\<rparr>"

definition tasksOnlyBody :: UpdateDaoBody where
  \<comment> \<open>the task list of the case file, with the progress of task 2 raised to 80\<close>
  "tasksOnlyBody = \<lparr>v_numeroListe = None, v_objetDossier = None, v_reference = None,
     v_autoriteContractante = None, v_dateDepot = None, v_equipe = None,
     v_tasks = Some [mkTask 1 ''Resume'', (mkTask 2 ''Caution'')\<lparr>t_progress := Some 80\<rparr>,
                     mkTask 3 ''Offre'']\<rparr>"

definition subjectBody :: UpdateDaoBody where
  \<comment> \<open>\<^verbatim>\<open>{ "objetDossier": "Pont" }\<close>\<close>
  "subjectBody = \<lparr>v_numeroListe = None, v_objetDossier = Some ''Pont'', v_reference = None,
     v_autoriteContractante = None, v_dateDepot = None, v_equipe = None, v_tasks = None\<rparr>"




definition daoBigId :: Dao where
  \<comment> \<open>a case file whose only task has the id \<open>2 ^ 53\<close>\<close>
  "daoBigId = dao1\<lparr>d_tasks := [mkTask 9007199254740992 ''Resume'']\<rparr>"

definition twoTasksBody :: UpdateDaoBody where
  \<comment> \<open>the task list of the case file, with the progress of tasks 2 and 3 raised to 80\<close>
  "twoTasksBody = \<lparr>v_numeroListe = None, v_objetDossier = None, v_reference = None,
     v_autoriteContractante = None, v_dateDepot = None, v_equipe = None,
     v_tasks = Some [mkTask 1 ''Resume'', (mkTask 2 ''Caution'')\<lparr>t_progress := Some 80\<rparr>,
                     (mkTask 3 ''Offre'')\<lparr>t_progress := Some 80\<rparr>]\<rparr>"

definition lateThrow :: "(subject, body) env" where
  \<comment> \<open>the broadcast of a notification about task 3 throws, no other call does\<close>
  "lateThrow = \<lparr>broadcast_throws = (\<lambda>n. nf_taskId n = Some 3),
     getAllUsers_result = Some [\<lparr>au_id = ''u1'', au_email = ''a@x.org''\<rparr>],
     sendMail_throws = (\<lambda>to s b. False)\<rparr>"

section \<open>The sanitizer\<close>

lemma set_tl_dropWhile: "set (tl (dropWhile P cs)) \<subseteq> set cs"
proof -
  have "set (tl xs) \<subseteq> set xs" for xs :: "'a list" by (cases xs) auto
  moreover have "set (dropWhile P cs) \<subseteq> set cs" by (auto dest: set_dropWhileD)
  ultimately show ?thesis by blast
qed

lemma set_stripTags: "set (stripTags s) \<subseteq> set s"
proof (induction s rule: stripTags.induct)
  case 1 show ?case by simp
next
  case (2 c cs)
  show ?case
  proof (cases "c = CHR ''<'' \<and> CHR ''>'' \<in> set cs")
    case True
    then have "set (stripTags (tl (dropWhile (\<lambda>x. x \<noteq> CHR ''>'') cs))) \<subseteq> set cs"
      using 2(1) set_tl_dropWhile[of "\<lambda>x. x \<noteq> CHR ''>''" cs] by blast
    with True show ?thesis by auto
  next
    case False
    then have "set (stripTags cs) \<subseteq> set cs" using 2(2) by blast
    with False show ?thesis by auto
  qed
qed

lemma hasTag_stripTags: "\<not> hasTag (stripTags s)"
proof (induction s rule: stripTags.induct)
  case 1 show ?case by simp
next
  case (2 c cs)
  show ?case
  proof (cases "c = CHR ''<'' \<and> CHR ''>'' \<in> set cs")
    case True with 2 show ?thesis by simp
  next
    case False
    with 2 have ih: "\<not> hasTag (stripTags cs)" by simp
    from False have "c = CHR ''<'' \<Longrightarrow> CHR ''>'' \<notin> set (stripTags cs)"
      using set_stripTags[of cs] by auto
    with False ih show ?thesis by auto
  qed
qed

lemma stripTags_id: "\<not> hasTag s \<Longrightarrow> stripTags s = s"
  by (induction s) auto

lemma hasTag_iff: "hasTag s \<longleftrightarrow> (\<exists>u v w. s = u @ CHR ''<'' # v @ CHR ''>'' # w)"
proof
  show "hasTag s \<Longrightarrow> \<exists>u v w. s = u @ CHR ''<'' # v @ CHR ''>'' # w"
  proof (induction s)
    case Nil then show ?case by simp
  next
    case (Cons c cs)
    show ?case
    proof (cases "c = CHR ''<'' \<and> CHR ''>'' \<in> set cs")
      case True
      then obtain v w where "cs = v @ CHR ''>'' # w" by (meson split_list)
      with True have "c # cs = [] @ CHR ''<'' # v @ CHR ''>'' # w" by simp
      then show ?thesis by blast
    next
      case False
      with Cons.prems have "hasTag cs" by auto
      then obtain u v w where "cs = u @ CHR ''<'' # v @ CHR ''>'' # w" using Cons.IH by blast
      then have "c # cs = (c # u) @ CHR ''<'' # v @ CHR ''>'' # w" by simp
      then show ?thesis by blast
    qed
  qed
next
  assume "\<exists>u v w. s = u @ CHR ''<'' # v @ CHR ''>'' # w"
  then obtain u v w where s: "s = u @ CHR ''<'' # v @ CHR ''>'' # w" by blast
  show "hasTag s" unfolding s by (induction u) auto
qed

lemma trim_decomp: "\<exists>l r. s = l @ trim s @ r"
proof -
  let ?t = "dropWhile isWhiteSpace s"
  have 1: "s = takeWhile isWhiteSpace s @ ?t" by simp
  have "rev ?t = takeWhile isWhiteSpace (rev ?t) @ dropWhile isWhiteSpace (rev ?t)" by simp
  then have "?t = rev (dropWhile isWhiteSpace (rev ?t)) @ rev (takeWhile isWhiteSpace (rev ?t))"
    by (metis rev_append rev_rev_ident)
  then have "?t = trim s @ rev (takeWhile isWhiteSpace (rev ?t))" by (simp add: trim_def)
  with 1 show ?thesis by metis
qed

lemma hasTag_trim: "hasTag (trim s) \<Longrightarrow> hasTag s"
proof -
  assume "hasTag (trim s)"
  then obtain u v w where t: "trim s = u @ CHR ''<'' # v @ CHR ''>'' # w"
    using hasTag_iff by blast
  obtain l r where "s = l @ trim s @ r" using trim_decomp by blast
  with t have "s = (l @ u) @ CHR ''<'' # v @ CHR ''>'' # (w @ r)" by simp
  then show "hasTag s" using hasTag_iff by blast
qed

lemma dropWhile_hd_id: "xs \<noteq> [] \<Longrightarrow> \<not> P (hd xs) \<Longrightarrow> dropWhile P xs = xs"
  by (cases xs) auto

lemma trim_ends:
  "trim s = [] \<or> (\<not> isWhiteSpace (hd (trim s)) \<and> \<not> isWhiteSpace (last (trim s)))"
  by (metis dropWhile_eq_self_iff hd_dropWhile last_appendR last_rev
    rev.simps(1) rev_rev_ident takeWhile_dropWhile_id trim_def)

lemma trim_trim: "trim (trim s) = trim s"
proof (cases "trim s = []")
  case True
  have "trim [] = []" by (simp add: trim_def)
  with True show ?thesis by simp
next
  case False
  with trim_ends[of s] have h: "\<not> isWhiteSpace (hd (trim s))"
    and l: "\<not> isWhiteSpace (last (trim s))" by auto
  from False h have 1: "dropWhile isWhiteSpace (trim s) = trim s" by (rule dropWhile_hd_id)
  from False l have "\<not> isWhiteSpace (hd (rev (trim s)))" by (simp add: hd_rev)
  with False have 2: "dropWhile isWhiteSpace (rev (trim s)) = rev (trim s)"
    by (intro dropWhile_hd_id) auto
  show ?thesis unfolding trim_def[of "trim s"] 1 2 by simp
qed

lemma hasTag_sanitizeString: "\<not> hasTag (sanitizeString s)"
  unfolding sanitizeString_def using hasTag_trim hasTag_stripTags by blast

text \<open>
  C10. Sanitizing is idempotent, and a sanitized string holds no \<^verbatim>\<open><\<close> with a
  \<^verbatim>\<open>>\<close> anywhere after it: no substring of it matches the tag pattern \<^verbatim>\<open><[^>]*>\<close>.
\<close>

theorem sanitizeString_idempotent_no_tag:
  "sanitizeString (sanitizeString s) = sanitizeString s
   \<and> \<not> (\<exists>u v w. sanitizeString s = u @ CHR ''<'' # v @ CHR ''>'' # w)"
proof -
  have nt: "\<not> hasTag (sanitizeString s)" by (rule hasTag_sanitizeString)
  then have "stripTags (sanitizeString s) = sanitizeString s" by (rule stripTags_id)
  then have "sanitizeString (sanitizeString s) = sanitizeString s"
    by (simp add: sanitizeString_def trim_trim)
  with nt show ?thesis using hasTag_iff by blast
qed

theorem sanitizeString_idempotent_no_tag_witness:
  "sanitizeString ''  <b>A</b> <<i>B> C < D  '' = ''A B> C < D''
   \<and> sanitizeString ''A B> C < D'' = ''A B> C < D''
   \<and> \<not> (\<exists>u v w. ''A B> C < D'' = u @ CHR ''<'' # v @ CHR ''>'' # w)"
proof -
  have e: "sanitizeString ''  <b>A</b> <<i>B> C < D  '' = ''A B> C < D''"
    by (simp add: sanitizeString_def trim_def isWhiteSpace_def)
  show ?thesis
    using sanitizeString_idempotent_no_tag[of "''  <b>A</b> <<i>B> C < D  ''"]
    unfolding e by (simp add: e)
qed

section \<open>Bulk mail\<close>

lemma set_Array_from_Set: "set (Array_from_Set xs) = set xs"
  by (induction xs rule: Array_from_Set.induct) auto

lemma distinct_Array_from_Set: "distinct (Array_from_Set xs)"
  by (induction xs rule: Array_from_Set.induct) (auto simp: set_Array_from_Set)

lemma forEach_send:
  "forEach tos (\<lambda>to. try_catch (sendNotificationEmail e to subj bdy))
     = (map (\<lambda>to. SendMail to subj bdy) tos, Inr ())"
  by (induction tos) (simp_all add: retE_def bindE_def try_catch_def sendNotificationEmail_def)

lemma sendBulkNotification_eq:
  "sendBulkNotification e toList subj bdy =
     (map (\<lambda>to. SendMail to subj bdy) (Array_from_Set (filter (\<lambda>to. to \<noteq> []) toList)),
      Inr (length (Array_from_Set (filter (\<lambda>to. to \<noteq> []) toList))))"
  by (simp add: sendBulkNotification_def Let_def forEach_send bindE_def retE_def)

text \<open>
  C9. Whatever the mail transport does, \<^verbatim>\<open>sendBulkNotification\<close> does not throw: it returns
  the number of distinct non-empty addresses, and the mails it attempted are one per
  distinct non-empty address of the list, each with the given subject and body.
\<close>

theorem sendBulkNotification_each_address_once:
  "snd (sendBulkNotification e toList subj bdy) = Inr (card (set toList - {[]}))
   \<and> (\<exists>tos. fst (sendBulkNotification e toList subj bdy) = map (\<lambda>to. SendMail to subj bdy) tos
          \<and> distinct tos \<and> set tos = set toList - {[]})"
proof -
  let ?u = "Array_from_Set (filter (\<lambda>to. to \<noteq> []) toList)"
  have d: "distinct ?u" by (rule distinct_Array_from_Set)
  have s: "set ?u = set toList - {[]}" by (auto simp: set_Array_from_Set)
  have "length ?u = card (set toList - {[]})" using d s by (metis distinct_card)
  with d s show ?thesis by (auto simp: sendBulkNotification_eq)
qed

theorem sendBulkNotification_each_address_once_witness:
  "snd (sendBulkNotification flaky [''a@x.org'', [], ''b@x.org'', ''a@x.org''] 1 2) = Inr 2
   \<and> sendMail_throws flaky ''a@x.org'' 1 2"
  using sendBulkNotification_each_address_once
    [of flaky "[''a@x.org'', [], ''b@x.org'', ''a@x.org'']" 1 2]
  by (simp add: flaky_def card_insert_if)

section \<open>The store\<close>

lemma findIndexById_Some:
  "findIndexById st i = Some k \<Longrightarrow> k < length st \<and> findById st i = Some (st ! k) \<and> d_id (st ! k) = i"
  by (induction st arbitrary: k) (auto simp: findById_def split: if_splits)

lemma findById_index:
  "findById st i = Some d \<Longrightarrow> \<exists>k. findIndexById st i = Some k"
  by (induction st) (auto simp: findById_def split: if_splits)

lemma findById_update_first:
  "findIndexById st i = Some k \<Longrightarrow> d_id d' = i \<Longrightarrow> findById (st[k := d']) i = Some d'"
  by (induction st arbitrary: k) (auto simp: findById_def split: if_splits)

lemma d_id_applyUpdates [simp]: "d_id (applyUpdates d u s) = d_id d"
  by (simp add: applyUpdates_def)

lemma updateDao_found:
  assumes "findById st i = Some d"
  shows "\<exists>st'. updateDao c st i u = (st', Some (applyUpdates d u (now c)))
           \<and> findById st' i = Some (applyUpdates d u (now c))
           \<and> applyUpdates d u (now c) \<in> set st'"
proof -
  from assms obtain k where k: "findIndexById st i = Some k" using findById_index by blast
  then have kk: "k < length st" "findById st i = Some (st ! k)" "d_id (st ! k) = i"
    using findIndexById_Some by blast+
  with assms have dk: "st ! k = d" by simp
  let ?d = "applyUpdates d u (now c)"
  have 1: "updateDao c st i u = (st[k := ?d], Some ?d)"
    using k assms by (simp add: updateDao_def updateAtIndex_def Let_def)
  have 2: "findById (st[k := ?d]) i = Some ?d"
    using k kk dk by (intro findById_update_first) auto
  have 3: "?d \<in> set (st[k := ?d])" using kk(1) by (simp add: set_update_memI)
  from 1 2 3 show ?thesis by blast
qed

lemma respond_try_catch:
  "respond st code (bindE (try_catch m) (\<lambda>_. retE r)) = (st, r, fst m)"
  by (simp add: respond_def bindE_def try_catch_def retE_def)

section \<open>Adding a task\<close>

lemma Math_max_Max: "xs \<noteq> [] \<Longrightarrow> Math_max xs = Some (Max (set xs))"
proof (cases xs)
  case (Cons a l)
  then show ?thesis using Max.set_eq_fold[of a l] by simp
qed simp

lemma doubleExponent_small: "a < 2 ^ 53 \<Longrightarrow> doubleExponent a = 0"
  by (subst doubleExponent.simps) simp

lemma doubleExponent_2_53: "doubleExponent 9007199254740992 = 1"
  by (subst doubleExponent.simps) (simp add: doubleExponent_small)

lemma doubleExponent_2_53_1: "doubleExponent 9007199254740993 = 1"
  by (subst doubleExponent.simps) (simp add: doubleExponent_small)

lemma roundDouble_exact: "\<bar>x\<bar> \<le> 2 ^ 53 \<Longrightarrow> roundDouble x = x"
proof (cases "\<bar>x\<bar> < 2 ^ 53")
  case True
  then show ?thesis by (simp add: roundDouble_def doubleExponent_small Let_def mult_sgn_abs)
next
  case False
  assume "\<bar>x\<bar> \<le> 2 ^ 53"
  with False have a: "\<bar>x\<bar> = 9007199254740992" by simp
  have "sgn x * 9007199254740992 = x" using a by (metis mult_sgn_abs)
  then show ?thesis unfolding roundDouble_def a by (simp add: Let_def doubleExponent_2_53)
qed

lemma roundDouble_2_53: "roundDouble 9007199254740993 = 9007199254740992"
  unfolding roundDouble_def by (simp add: Let_def doubleExponent_2_53_1)

lemma newTaskId_eq:
  assumes "\<forall>i \<in> set ids. \<bar>i\<bar> < 2 ^ 53"
  shows "newTaskId ids = (if ids = [] then 1 else Max (set ids) + 1)"
proof (cases "ids = []")
  case True
  then show ?thesis by (simp add: newTaskId_def)
next
  case False
  then have "Max (set ids) \<in> set ids" by simp
  with assms have "\<bar>Max (set ids)\<bar> < 2 ^ 53" by blast
  then have "\<bar>Max (set ids) + 1\<bar> \<le> 2 ^ 53" by simp
  then have "js_plus (Max (set ids)) 1 = Max (set ids) + 1"
    unfolding js_plus_def by (rule roundDouble_exact)
  with False show ?thesis by (simp add: newTaskId_def Math_max_Max)
qed

lemma newTaskId_fresh:
  assumes "\<forall>i \<in> set ids. \<bar>i\<bar> < 2 ^ 53"
  shows "newTaskId ids \<notin> set ids"
proof (cases "ids = []")
  case True then show ?thesis by simp
next
  case False
  show ?thesis
  proof
    assume "newTaskId ids \<in> set ids"
    then have "newTaskId ids \<le> Max (set ids)" by simp
    with False show False by (simp add: newTaskId_eq[OF assms])
  qed
qed

text \<open>
  C3, as the route has it. On an existing case file whose task ids are below \<open>2 ^ 53\<close> in
  magnitude, the add-task route answers 201 with the stored case file, whose task list is
  the old one with the new task appended; the new id is 1 on an empty list and the maximum of
  the present ids plus one otherwise, and it differs from every id present.
\<close>

theorem post_task_appends_max_plus_one:
  assumes "\<not> invalidId daoId" and "getDaoById st daoId = Some dao"
    and "\<forall>t \<in> set (d_tasks dao). \<bar>t_id t\<bar> < 2 ^ 53"
  shows "\<exists>st' updated newTask effs.
           post_task e c st daoId validatedData = (st', Json 201 (Some updated), effs)
           \<and> getDaoById st' daoId = Some updated
           \<and> d_tasks updated = d_tasks dao @ [newTask]
           \<and> t_id newTask = (if d_tasks dao = [] then 1 else Max (set (map t_id (d_tasks dao))) + 1)
           \<and> t_id newTask \<notin> set (map t_id (d_tasks dao))"
proof -
  let ?ids = "map t_id (d_tasks dao)"
  let ?new = "\<lparr>t_id = newTaskId ?ids,
                   t_name = sanitizeString (ct_name validatedData),
                   t_progress = (if ct_isApplicable validatedData
                                 then ct_progress validatedData else None),
                   t_comment = (if truthy (ct_comment validatedData)
                                then map_option sanitizeString (ct_comment validatedData) else None),
                   t_isApplicable = ct_isApplicable validatedData,
                   t_assignedTo = ct_assignedTo validatedData,
                   t_lastUpdatedBy = Some (userId c),
                   t_lastUpdatedAt = Some (now c)\<rparr>"
  let ?u = "noUpdates\<lparr>u_tasks := Some (d_tasks dao @ [?new])\<rparr>"
  let ?d = "applyUpdates dao ?u (now c)"
  from assms(3) have safe: "\<forall>i \<in> set ?ids. \<bar>i\<bar> < 2 ^ 53" by auto
  from assms(2) have f: "findById st daoId = Some dao" by (simp add: getDaoById_def)
  from updateDao_found[OF f, of c ?u] obtain st' where
    u: "updateDao c st daoId ?u = (st', Some ?d)" and g: "findById st' daoId = Some ?d" by blast
  have t: "d_tasks ?d = d_tasks dao @ [?new]" by (simp add: applyUpdates_def noUpdates_def)
  have "\<exists>effs. post_task e c st daoId validatedData = (st', Json 201 (Some ?d), effs)"
    using assms(1,2) u by (simp add: post_task_def Let_def respond_try_catch)
  moreover have "t_id ?new = (if d_tasks dao = [] then 1 else Max (set ?ids) + 1)"
    using newTaskId_eq[OF safe] by simp
  moreover have "t_id ?new \<notin> set ?ids" using newTaskId_fresh[OF safe] by simp
  ultimately show ?thesis using g t unfolding getDaoById_def by blast
qed

lemmas store_defs = getDaoById_def findById_def updateDao_def applyUpdates_def updateAtIndex_def
  noUpdates_def invalidId_def Let_def

lemmas example_defs = ctx0_def store1_def dao1_def mkTask_def team0_def newTaskBody_def

lemma delete_example:
  "fst (delete_task quiet ctx0 store1 ''d1'' (Some 3)) =
     [dao1\<lparr>d_tasks := [mkTask 1 ''Resume'', mkTask 2 ''Caution''], d_updatedAt := now ctx0\<rparr>]"
  by (simp add: delete_task_def store_defs example_defs splice1_def respond_try_catch)

lemma newTaskId_small:
  "newTaskId [1, 2] = 3 \<and> newTaskId [1, 2, 3] = 4
   \<and> newTaskId [9007199254740992] = 9007199254740992"
  by (simp add: newTaskId_def js_plus_def roundDouble_exact roundDouble_2_53)

text \<open>
  C3, the counterexample. To "an id of a deleted task is never reused": task 3 of a case
  file with tasks 1, 2, 3 is deleted, and the task added next gets the id 3 again. To "the
  new id is one greater than the maximum": on a case file whose only task has the id
  \<open>2 ^ 53\<close>, the sum is rounded to \<open>2 ^ 53\<close> and the new task gets the id that is present.
\<close>

theorem post_task_reuses_deleted_id:
  "map t_id (d_tasks (the (getDaoById store1 ''d1''))) = [1, 2, 3]
   \<and> map t_id (d_tasks (the (getDaoById (fst (delete_task quiet ctx0 store1 ''d1'' (Some 3))) ''d1'')))
       = [1, 2]
   \<and> map t_id (d_tasks (the (getDaoById
         (fst (post_task quiet ctx0 (fst (delete_task quiet ctx0 store1 ''d1'' (Some 3))) ''d1''
                 newTaskBody)) ''d1'')))
       = [1, 2, 3]
   \<and> map t_id (d_tasks (the (getDaoById [daoBigId] ''d1''))) = [9007199254740992]
   \<and> map t_id (d_tasks (the (getDaoById
         (fst (post_task quiet ctx0 [daoBigId] ''d1'' newTaskBody)) ''d1'')))
       = [9007199254740992, 9007199254740992]"
  unfolding delete_example
  by (simp add: post_task_def store_defs example_defs daoBigId_def respond_try_catch
      newTaskId_small truthy_def)

theorem post_task_appends_max_plus_one_witness:
  "\<exists>st' updated newTask effs.
     post_task failing ctx0 store1 ''d1'' newTaskBody = (st', Json 201 (Some updated), effs)
     \<and> d_tasks updated = d_tasks dao1 @ [newTask] \<and> t_id newTask = 4"
proof -
  have a: "\<not> invalidId ''d1''" by (simp add: invalidId_def)
  have b: "getDaoById store1 ''d1'' = Some dao1" by (simp add: store_defs store1_def dao1_def)
  have s: "\<forall>t \<in> set (d_tasks dao1). \<bar>t_id t\<bar> < 2 ^ 53" by (simp add: dao1_def mkTask_def)
  have m: "Max (set (map t_id (d_tasks dao1))) + 1 = 4" "d_tasks dao1 \<noteq> []"
    by (simp_all add: dao1_def mkTask_def)
  from post_task_appends_max_plus_one[OF a b s, of failing ctx0 newTaskBody] m
  show ?thesis by auto
qed

section \<open>Updating the fields of a task\<close>

text \<open>
  C1, the route at a concrete request. Task 1 is applicable with progress 40. The request
  \<^verbatim>\<open>{ "isApplicable": false, "progress": 50 }\<close> leaves it not applicable with progress 50, the
  request \<^verbatim>\<open>{ "isApplicable": false }\<close> leaves it not applicable with progress 40: the route
  assigns the fields it is given and never clears the progress, in the stored state as in
  the response.
\<close>

theorem put_task_keeps_progress_when_not_applicable:
  "map (\<lambda>t. (t_id t, t_isApplicable t, t_progress t))
       (d_tasks (the (getDaoById (fst (put_task quiet ctx0 store1 ''d1'' (Some 1) notApplicableBody)) ''d1'')))
     = [(1, False, Some 50), (2, True, Some 40), (3, True, Some 40)]
   \<and> map (\<lambda>t. (t_id t, t_isApplicable t, t_progress t))
       (d_tasks (the (getDaoById (fst (put_task quiet ctx0 store1 ''d1'' (Some 1) notApplicableOnly)) ''d1'')))
     = [(1, False, Some 40), (2, True, Some 40), (3, True, Some 40)]
   \<and> fst (snd (put_task quiet ctx0 store1 ''d1'' (Some 1) notApplicableBody))
     = Json 200 (getDaoById (fst (put_task quiet ctx0 store1 ''d1'' (Some 1) notApplicableBody)) ''d1'')"
  by (simp add: put_task_def store_defs example_defs respond_try_catch applyTaskUpdate_def
      notApplicableBody_def notApplicableOnly_def)

section \<open>Reordering tasks\<close>

lemma find_distinct:
  "distinct (map f xs) \<Longrightarrow> x \<in> set xs \<Longrightarrow> find (\<lambda>y. f y = f x) xs = Some x"
  by (induction xs) (auto simp: image_iff)

lemma reorder_map_id:
  assumes "distinct (map t_id ts)" and "set ids \<subseteq> set (map t_id ts)"
  shows "map t_id (map (\<lambda>taskId. the (find (\<lambda>task. t_id task = taskId) ts)) ids) = ids"
proof -
  have "t_id (the (find (\<lambda>task. t_id task = i) ts)) = i" if "i \<in> set ids" for i
  proof -
    from that assms(2) obtain x where x: "x \<in> set ts" "t_id x = i" by auto
    with find_distinct[OF assms(1) x(1)] show ?thesis by simp
  qed
  then show ?thesis by (simp add: map_idI)
qed

lemma reorder_mset:
  assumes "distinct (map t_id ts)" and "mset ids = mset (map t_id ts)"
  shows "mset (map (\<lambda>taskId. the (find (\<lambda>task. t_id task = taskId) ts)) ids) = mset ts"
proof -
  let ?g = "\<lambda>taskId. the (find (\<lambda>task. t_id task = taskId) ts)"
  have g: "?g (t_id x) = x" if "x \<in> set ts" for x
    using find_distinct[OF assms(1) that] by simp
  have "mset (map ?g ids) = image_mset ?g (mset ids)" by (rule mset_map)
  also have "\<dots> = image_mset ?g (mset (map t_id ts))" by (simp only: assms(2))
  also have "\<dots> = mset (map ?g (map t_id ts))" by (rule mset_map[symmetric])
  also have "map ?g (map t_id ts) = ts" using g by (simp add: map_idI)
  finally show ?thesis .
qed

lemma not_perm_cases:
  assumes d: "distinct ids" and ne: "mset taskIds \<noteq> mset ids"
    and sub: "set taskIds \<subseteq> set ids"
  shows "length taskIds \<noteq> length ids \<or> \<not> list_all (\<lambda>tid. tid \<in> set taskIds) ids"
proof (rule ccontr)
  assume "\<not> ?thesis"
  then have l: "length taskIds = length ids" and a: "set ids \<subseteq> set taskIds"
    by (auto simp: list_all_iff)
  from a sub have s: "set taskIds = set ids" by auto
  from d have "card (set ids) = length ids" by (rule distinct_card)
  with l s have "card (set taskIds) = length taskIds" by simp
  then have "distinct taskIds" by (rule card_distinct)
  with d s have "mset taskIds = mset ids" by (simp add: set_eq_iff_mset_eq_distinct)
  with ne show False by contradiction
qed

text \<open>
  C2, as the route has it, on an existing case file whose task ids are pairwise distinct
  (the invariant of the data model). An empty id list is rejected with 400 INVALID_TASK_IDS.
  A non-empty list that is a permutation of the present ids gives 200 and the stored case
  file, whose tasks are the old tasks in the order of the list. Any other non-empty list is
  rejected and the store is unchanged: with INVALID_TASK_IDS and the offending ids when some
  id is not present, with 400 INCOMPLETE_TASK_LIST otherwise.
\<close>

theorem put_tasks_reorder_all_or_nothing:
  assumes "\<not> invalidId i" and "getDaoById st i = Some dao"
    and "distinct (map t_id (d_tasks dao))"
  shows "(taskIds = [] \<longrightarrow>
            put_tasks_reorder e c st i taskIds = (st, Error 400 ''INVALID_TASK_IDS'', []))
       \<and> (taskIds \<noteq> [] \<and> mset taskIds = mset (map t_id (d_tasks dao)) \<longrightarrow>
            (\<exists>st' updated effs.
               put_tasks_reorder e c st i taskIds = (st', Json 200 (Some updated), effs)
               \<and> getDaoById st' i = Some updated
               \<and> map t_id (d_tasks updated) = taskIds
               \<and> mset (d_tasks updated) = mset (d_tasks dao)))
       \<and> (taskIds \<noteq> [] \<and> mset taskIds \<noteq> mset (map t_id (d_tasks dao)) \<longrightarrow>
            put_tasks_reorder e c st i taskIds =
              (st,
               if \<exists>tid \<in> set taskIds. tid \<notin> set (map t_id (d_tasks dao))
               then ErrorInvalidIds (filter (\<lambda>tid. tid \<notin> set (map t_id (d_tasks dao))) taskIds)
               else Error 400 ''INCOMPLETE_TASK_LIST'',
               []))"
proof (intro conjI impI)
  assume "taskIds = []"
  with assms show "put_tasks_reorder e c st i taskIds = (st, Error 400 ''INVALID_TASK_IDS'', [])"
    by (simp add: put_tasks_reorder_def)
next
  let ?ids = "map t_id (d_tasks dao)"
  assume h: "taskIds \<noteq> [] \<and> mset taskIds = mset ?ids"
  then have s: "set taskIds = set ?ids" by (metis mset_eq_setD)
  from h have l: "length taskIds = length (d_tasks dao)" by (metis size_mset length_map)
  let ?re = "map (\<lambda>taskId. the (find (\<lambda>task. t_id task = taskId) (d_tasks dao))) taskIds"
  let ?u = "noUpdates\<lparr>u_tasks := Some ?re\<rparr>"
  let ?d = "applyUpdates dao ?u (now c)"
  from assms(2) have f: "findById st i = Some dao" by (simp add: getDaoById_def)
  from updateDao_found[OF f, of c ?u] obtain st' where
    u: "updateDao c st i ?u = (st', Some ?d)" and g: "findById st' i = Some ?d" by blast
  have t: "d_tasks ?d = ?re" by (simp add: applyUpdates_def noUpdates_def)
  have inv: "filter (\<lambda>tid. tid \<notin> set ?ids) taskIds = []" using s by (auto simp: filter_empty_conv)
  have all: "list_all (\<lambda>tid. tid \<in> set taskIds) ?ids" using s by (auto simp: list_all_iff)
  from h l have ne: "taskIds \<noteq> []" "d_tasks dao \<noteq> []" by auto
  have "\<exists>effs. put_tasks_reorder e c st i taskIds = (st', Json 200 (Some ?d), effs)"
    using assms(1,2) ne l u inv all
    by (simp add: put_tasks_reorder_def Let_def respond_try_catch del: set_map)
  moreover have "map t_id (d_tasks ?d) = taskIds"
    unfolding t using reorder_map_id[OF assms(3), of taskIds] s by simp
  moreover have "mset (d_tasks ?d) = mset (d_tasks dao)"
  proof -
    from h have "mset taskIds = mset ?ids" by blast
    from reorder_mset[OF assms(3) this] show ?thesis unfolding t .
  qed
  ultimately show "\<exists>st' updated effs.
               put_tasks_reorder e c st i taskIds = (st', Json 200 (Some updated), effs)
               \<and> getDaoById st' i = Some updated
               \<and> map t_id (d_tasks updated) = taskIds
               \<and> mset (d_tasks updated) = mset (d_tasks dao)"
    using g unfolding getDaoById_def by blast
next
  let ?ids = "map t_id (d_tasks dao)"
  assume h: "taskIds \<noteq> [] \<and> mset taskIds \<noteq> mset ?ids"
  show "put_tasks_reorder e c st i taskIds =
              (st,
               if \<exists>tid \<in> set taskIds. tid \<notin> set ?ids
               then ErrorInvalidIds (filter (\<lambda>tid. tid \<notin> set ?ids) taskIds)
               else Error 400 ''INCOMPLETE_TASK_LIST'',
               [])"
  proof (cases "\<exists>tid \<in> set taskIds. tid \<notin> set ?ids")
    case True
    then have "filter (\<lambda>tid. tid \<notin> set ?ids) taskIds \<noteq> []" by (simp add: filter_empty_conv)
    with True assms(1,2) h show ?thesis
      by (simp add: put_tasks_reorder_def Let_def del: set_map)
  next
    case False
    then have sub: "set taskIds \<subseteq> set ?ids" by auto
    then have inv: "filter (\<lambda>tid. tid \<notin> set ?ids) taskIds = []" by (auto simp: filter_empty_conv)
    from not_perm_cases[OF assms(3) _ sub] h
    have "length taskIds \<noteq> length ?ids \<or> \<not> list_all (\<lambda>tid. tid \<in> set taskIds) ?ids" by blast
    with False assms(1,2) h inv show ?thesis
      by (simp add: put_tasks_reorder_def Let_def del: set_map)
  qed
qed

text \<open>
  C2, the counterexample: on a case file without tasks the empty list is a permutation of
  the present ids, and it is rejected; on a case file with tasks the empty list, whose count
  mismatches, is rejected with INVALID_TASK_IDS and not with INCOMPLETE_TASK_LIST.
\<close>

theorem put_tasks_reorder_rejects_empty_permutation:
  "mset ([] :: int list) = mset (map t_id (d_tasks daoNoTasks))
   \<and> getDaoById [daoNoTasks] ''d1'' = Some daoNoTasks
   \<and> put_tasks_reorder quiet ctx0 [daoNoTasks] ''d1'' []
       = ([daoNoTasks], Error 400 ''INVALID_TASK_IDS'', [])
   \<and> length ([] :: int list) \<noteq> length (d_tasks dao1)
   \<and> put_tasks_reorder quiet ctx0 store1 ''d1'' [] = (store1, Error 400 ''INVALID_TASK_IDS'', [])"
  by (simp add: put_tasks_reorder_def store_defs example_defs daoNoTasks_def)

theorem put_tasks_reorder_all_or_nothing_witness:
  "(\<exists>st' updated effs.
      put_tasks_reorder failing ctx0 store1 ''d1'' [3, 1, 2] = (st', Json 200 (Some updated), effs)
      \<and> map t_id (d_tasks updated) = [3, 1, 2] \<and> mset (d_tasks updated) = mset (d_tasks dao1))
   \<and> put_tasks_reorder failing ctx0 store1 ''d1'' [3, 1]
       = (store1, Error 400 ''INCOMPLETE_TASK_LIST'', [])
   \<and> put_tasks_reorder failing ctx0 store1 ''d1'' [3, 1, 7]
       = (store1, ErrorInvalidIds [7], [])"
proof -
  have a: "\<not> invalidId ''d1''" by (simp add: invalidId_def)
  have b: "getDaoById store1 ''d1'' = Some dao1" by (simp add: store_defs store1_def dao1_def)
  have d: "distinct (map t_id (d_tasks dao1))" by (simp add: dao1_def mkTask_def)
  have ids: "map t_id (d_tasks dao1) = [1, 2, 3]" by (simp add: dao1_def mkTask_def)
  note T = put_tasks_reorder_all_or_nothing[OF a b d, of _ failing ctx0]
  have 1: "mset [3, 1, 2] = mset (map t_id (d_tasks dao1))" unfolding ids by (simp add: add_mset_commute)
  have 2: "mset [3, 1] \<noteq> mset (map t_id (d_tasks dao1))" unfolding ids
    by (metis length_Cons list.size(3) size_mset n_not_Suc_n)
  have 3: "mset [3, 1, 7] \<noteq> mset (map t_id (d_tasks dao1))" unfolding ids
    by (metis mset_eq_setD insert_iff list.set(2) list.set(1) empty_iff numeral_eq_iff
        semiring_norm(88) semiring_norm(89) semiring_norm(90) semiring_norm(85) num.distinct one_eq_numeral_iff numeral_eq_one_iff)
  show ?thesis using T[of "[3, 1, 2]"] T[of "[3, 1]"] T[of "[3, 1, 7]"] 1 2 3
    unfolding ids by auto
qed

section \<open>Creating a case file\<close>

lemma seedTasks_template:
  "supplied = None \<or> supplied = Some [] \<Longrightarrow>
   seedTasks DEFAULT_TASKS supplied = map (\<lambda>task. task\<lparr>r_progress := None, r_comment := Some []\<rparr>) DEFAULT_TASKS"
  by (auto simp: seedTasks_def)

lemma createDao_tasks:
  "d_tasks (snd (createDao c st daoData)) = n_tasks daoData
   \<and> snd (createDao c st daoData) \<in> set (fst (createDao c st daoData))"
  by (simp add: createDao_def Let_def add_def)

lemma stamp_zip_map:
  "map f (map (stampTask c) (zip raw [0..<length raw])) = map (\<lambda>t. f (stampTask c (t, 0))) raw"
  if "\<And>t i. f (stampTask c (t, i)) = f (stampTask c (t, 0))"
proof -
  have "map f (map (stampTask c) (zip raw [0..<length raw]))
        = map (\<lambda>p. f (stampTask c (fst p, 0))) (zip raw [0..<length raw])"
    using that by auto
  also have "\<dots> = map (\<lambda>t. f (stampTask c (t, 0))) (map fst (zip raw [0..<length raw]))"
    by (simp only: map_map comp_def)
  also have "map fst (zip raw [0..<length raw]) = raw" by simp
  finally show ?thesis .
qed

text \<open>
  C4, as the route has it. A create request without tasks (none, or an empty list) answers
  201 with the stored case file; its tasks are those of the template, entry by entry, with
  the sanitized names and the applicability of the template; every one of them has progress
  null and no comment: the route keeps a comment only when it is not empty, so the empty
  string the seeding step writes is dropped and the field is absent.
\<close>

theorem post_dao_seeds_template:
  assumes "c_tasks validatedData = None \<or> c_tasks validatedData = Some []"
  shows "\<exists>st' newDao effs.
           post_dao e c DEFAULT_TASKS st validatedData = (st', Json 201 (Some newDao), effs)
           \<and> newDao \<in> set st'
           \<and> map t_name (d_tasks newDao) = map (\<lambda>t. sanitizeString (r_name t)) DEFAULT_TASKS
           \<and> map t_isApplicable (d_tasks newDao) = map r_isApplicable DEFAULT_TASKS
           \<and> (\<forall>t \<in> set (d_tasks newDao). t_progress t = None \<and> t_comment t = None)"
proof -
  let ?raw = "map (\<lambda>task. task\<lparr>r_progress := None, r_comment := Some []\<rparr>) DEFAULT_TASKS"
  let ?tasks = "map (stampTask c) (zip ?raw [0..<length ?raw])"
  let ?data = "\<lparr>n_numeroListe = sanitizeString (c_numeroListe validatedData),
             n_objetDossier = sanitizeString (c_objetDossier validatedData),
             n_reference = sanitizeString (c_reference validatedData),
             n_autoriteContractante = sanitizeString (c_autoriteContractante validatedData),
             n_dateDepot = c_dateDepot validatedData,
             n_equipe = map sanitizeMember (c_equipe validatedData),
             n_tasks = ?tasks\<rparr>"
  let ?new = "snd (createDao c st ?data)"
  have seed: "seedTasks DEFAULT_TASKS (c_tasks validatedData) = ?raw"
    using assms by (rule seedTasks_template)
  have r: "\<exists>effs. post_dao e c DEFAULT_TASKS st validatedData
             = (fst (createDao c st ?data), Json 201 (Some ?new), effs)"
    unfolding post_dao_def seed Let_def respond_try_catch by blast
  have t: "d_tasks ?new = ?tasks" and m: "?new \<in> set (fst (createDao c st ?data))"
    using createDao_tasks[of c st ?data] by simp_all
  have n: "map t_name ?tasks = map (\<lambda>t. sanitizeString (r_name t)) DEFAULT_TASKS"
    by (subst stamp_zip_map) (simp_all add: stampTask_def comp_def)
  have a: "map t_isApplicable ?tasks = map r_isApplicable DEFAULT_TASKS"
    by (subst stamp_zip_map) (simp_all add: stampTask_def comp_def)
  have p: "\<forall>t \<in> set ?tasks. t_progress t = None \<and> t_comment t = None"
    by (auto simp: stampTask_def truthy_def dest!: set_zip_leftD)
  from r t m n a p show ?thesis by auto
qed

text \<open>
  C4, the counterexample to "the comment is the empty string": on a two-entry template the
  tasks of the created case file, which the response carries, have no comment at all.
\<close>

theorem post_dao_seeded_comment_is_absent:
  "map t_comment (d_tasks (last (fst (post_dao quiet ctx0 template0 [] createBody0)))) = [None, None]
   \<and> map t_comment (d_tasks (last (fst (post_dao quiet ctx0 template0 [] createBody0))))
       \<noteq> [Some [], Some []]
   \<and> fst (snd (post_dao quiet ctx0 template0 [] createBody0))
       = Json 201 (Some (last (fst (post_dao quiet ctx0 template0 [] createBody0))))"
  by (simp add: post_dao_def seedTasks_def createBody0_def template0_def stampTask_def truthy_def
      createDao_def add_def Let_def respond_try_catch ctx0_def)

theorem post_dao_seeds_template_witness:
  "\<exists>st' newDao effs.
     post_dao failing ctx0 template0 [] createBody0 = (st', Json 201 (Some newDao), effs)
     \<and> map t_name (d_tasks newDao) = [''Resume'', ''Caution'']
     \<and> (\<forall>t \<in> set (d_tasks newDao). t_progress t = None \<and> t_comment t = None)"
proof -
  have a: "c_tasks createBody0 = None \<or> c_tasks createBody0 = Some []"
    by (simp add: createBody0_def)
  have n: "map (\<lambda>t. sanitizeString (r_name t)) template0 = [''Resume'', ''Caution'']"
    by (simp add: template0_def sanitizeString_def trim_def isWhiteSpace_def)
  from post_dao_seeds_template[OF a, of failing ctx0 template0 "[]"] show ?thesis
    unfolding n by auto
qed

section \<open>Notifications of a task update\<close>

lemma broadcasts_append [simp]: "broadcasts (xs @ ys) = broadcasts xs @ broadcasts ys"
  by (induction xs rule: broadcasts.induct) simp_all

lemma broadcasts_mails [simp]: "broadcasts (map (\<lambda>to. SendMail to subj bdy) tos) = []"
  by (induction tos) simp_all

lemma broadcasts_sendBulk [simp]: "broadcasts (fst (sendBulkNotification e tos subj bdy)) = []"
  by (simp add: sendBulkNotification_eq)

lemma broadcasts_emailAllUsers [simp]: "broadcasts (fst (emailAllUsers e subj bdy)) = []"
  by (simp add: emailAllUsers_def bindE_def getAllUsers_def retE_def split: sum.splits option.splits)

lemma fst_try_catch [simp]: "fst (try_catch m) = fst m"
  by (simp add: try_catch_def)

lemma snd_try_catch_Inr: "\<exists>v. snd (try_catch m) = Inr v"
  by (simp add: try_catch_def)

lemma taskNotify_assigned:
  assumes "t_assignedTo previous \<noteq> t_assignedTo task"
  shows "broadcasts (fst (taskNotify e dao i previous task)) =
           [\<lparr>nf_kind = (if truthy (t_assignedTo task) then task_assigned else task_unassigned),
             nf_daoId = i, nf_taskId = Some (t_id task), nf_assignedTo = t_assignedTo task,
             nf_detail = TaskChanges (taskChanges previous task)\<rparr>]"
  using assms
  by (simp add: taskNotify_def Let_def bindE_def broadcast_def retE_def sendNotificationEmail_def
      try_catch_def split: option.splits)

lemma find_Some_id: "find (\<lambda>t. t_id t = k) ts = Some x \<Longrightarrow> t_id x = k"
  by (induction ts) (auto split: if_splits)

text \<open>
  C5. The task update route on a request that moves the assignee of an existing task from
  member A to member B (both ids not empty, B as sanitized) and changes nothing else:
  the change list is the single entry "reassigned A to B", and the route hands exactly one
  notification to the broadcast, of kind \<^verbatim>\<open>task_assigned\<close>, carrying the task's id and the new
  assignee; none of kind \<^verbatim>\<open>task_updated\<close>. This holds whatever the collaborators do.
\<close>

theorem put_task_reassignment_notifies_once:
  assumes "\<not> invalidId i" and "1 \<le> parsedTaskId" and "getDaoById st i = Some dao"
    and "find (\<lambda>t. t_id t = parsedTaskId) (d_tasks dao) = Some previous"
    and "t_assignedTo previous = Some A" and "A \<noteq> []"
    and "tu_assignedTo validatedData = Some B0" and "sanitizeString B0 = B"
    and "B \<noteq> []" and "B \<noteq> A"
    and "tu_progress validatedData = None
         \<or> orZero (tu_progress validatedData) = orZero (t_progress previous)"
    and "tu_comment validatedData = None
         \<or> map_option sanitizeString (tu_comment validatedData) = t_comment previous"
    and "tu_isApplicable validatedData = None
         \<or> tu_isApplicable validatedData = Some (t_isApplicable previous)"
  shows "taskChanges previous (applyTaskUpdate c validatedData previous) = [Reassignee A B]
       \<and> (\<exists>st' updated effs.
            put_task e c st i (Some parsedTaskId) validatedData = (st', Json 200 (Some updated), effs)
            \<and> broadcasts effs =
                [\<lparr>nf_kind = task_assigned, nf_daoId = i, nf_taskId = Some parsedTaskId,
                  nf_assignedTo = Some B, nf_detail = TaskChanges [Reassignee A B]\<rparr>])"
proof -
  let ?task = "applyTaskUpdate c validatedData previous"
  have idp: "t_id previous = parsedTaskId" using assms(4) by (rule find_Some_id)
  have tid: "t_id ?task = parsedTaskId" using idp by (simp add: applyTaskUpdate_def)
  have asg: "t_assignedTo ?task = Some B" using assms(7,8) by (simp add: applyTaskUpdate_def)
  have pr: "orZero (t_progress ?task) = orZero (t_progress previous)"
    using assms(11) by (auto simp: applyTaskUpdate_def orZero_def split: option.splits)
  have cm: "t_comment ?task = t_comment previous"
    using assms(12) by (auto simp: applyTaskUpdate_def split: option.splits)
  have ap: "t_isApplicable ?task = t_isApplicable previous"
    using assms(13) by (auto simp: applyTaskUpdate_def split: option.splits)
  have ch: "taskChanges previous ?task = [Reassignee A B]"
    using pr cm ap asg assms(5,6,10)
    by (simp add: taskChanges_def assignmentChange_def truthy_def orAucun_def)
  have ne: "t_assignedTo previous \<noteq> t_assignedTo ?task" using asg assms(5,10) by simp
  let ?tasks = "replaceFirst (\<lambda>t. t_id t = parsedTaskId) ?task (d_tasks dao)"
  let ?u = "noUpdates\<lparr>u_tasks := Some ?tasks\<rparr>"
  let ?d = "applyUpdates dao ?u (now c)"
  from assms(3) have f: "findById st i = Some dao" by (simp add: getDaoById_def)
  from updateDao_found[OF f, of c ?u] obtain st' where
    u: "updateDao c st i ?u = (st', Some ?d)" by blast
  have "put_task e c st i (Some parsedTaskId) validatedData
          = (st', Json 200 (Some ?d), fst (taskNotify e dao i previous ?task))"
    using assms(1-4) u by (simp add: put_task_def Let_def respond_try_catch)
  moreover have "broadcasts (fst (taskNotify e dao i previous ?task)) =
      [\<lparr>nf_kind = task_assigned, nf_daoId = i, nf_taskId = Some parsedTaskId,
        nf_assignedTo = Some B, nf_detail = TaskChanges [Reassignee A B]\<rparr>]"
    using taskNotify_assigned[OF ne, of e dao i] assms(9) by (simp add: ch tid asg truthy_def)
  ultimately show ?thesis using ch by blast
qed

theorem put_task_reassignment_notifies_once_witness:
  "taskChanges (mkTask 3 ''Offre'') (applyTaskUpdate ctx0 reassignBody (mkTask 3 ''Offre''))
     = [Reassignee ''m1'' ''m2'']
   \<and> (\<exists>st' updated effs.
         put_task quiet ctx0 store1 ''d1'' (Some 3) reassignBody = (st', Json 200 (Some updated), effs)
         \<and> map nf_kind (broadcasts effs) = [task_assigned]
         \<and> map nf_taskId (broadcasts effs) = [Some 3])"
proof -
  have a: "\<not> invalidId ''d1''" by (simp add: invalidId_def)
  have b: "getDaoById store1 ''d1'' = Some dao1" by (simp add: store_defs store1_def dao1_def)
  have f: "find (\<lambda>t. t_id t = 3) (d_tasks dao1) = Some (mkTask 3 ''Offre'')"
    by (simp add: dao1_def mkTask_def)
  have s: "sanitizeString ''m2'' = ''m2''"
    by (simp add: sanitizeString_def trim_def isWhiteSpace_def)
  from put_task_reassignment_notifies_once
    [where e = quiet and c = ctx0 and A = "''m1''" and validatedData = reassignBody,
     OF a _ b f _ _ _ s]
  show ?thesis by (auto simp: mkTask_def reassignBody_def)
qed

section \<open>Notifications of a case-file update\<close>

lemma tasksLoop_result:
  "(\<forall>n \<in> set (broadcasts (fst (tasksLoop e updated i m ts))). nf_kind n = task_updated)
   \<and> snd (tasksLoop e updated i m ts)
       = (if \<exists>n \<in> set (broadcasts (fst (tasksLoop e updated i m ts))). broadcast_throws e n
          then Inl Thrown
          else Inr (broadcasts (fst (tasksLoop e updated i m ts)) \<noteq> []))"
proof (induction ts)
  case Nil
  show ?case by (simp add: retE_def)
next
  case (Cons t ts)
  show ?case
  proof (cases "map_of m (t_id t)")
    case None
    with Cons show ?thesis by simp
  next
    case (Some prev)
    show ?thesis
    proof (cases "taskDiffs prev t = []")
      case True
      with Some Cons show ?thesis by simp
    next
      case False
      let ?n = "\<lparr>nf_kind = task_updated, nf_daoId = i, nf_taskId = Some (t_id t),
                 nf_assignedTo = None, nf_detail = TaskChanges (taskDiffs prev t)\<rparr>"
      let ?rest = "tasksLoop e updated i m ts"
      show ?thesis
      proof (cases "broadcast_throws e ?n")
        case True
        with Some False show ?thesis
          by (simp add: Let_def bindE_def broadcast_def)
      next
        case nt: False
        from Cons have k: "\<forall>n \<in> set (broadcasts (fst ?rest)). nf_kind n = task_updated"
          and r: "snd ?rest = (if \<exists>n \<in> set (broadcasts (fst ?rest)). broadcast_throws e n
                    then Inl Thrown else Inr (broadcasts (fst ?rest) \<noteq> []))" by blast+
        show ?thesis
        proof (cases "\<exists>n \<in> set (broadcasts (fst ?rest)). broadcast_throws e n")
          case True
          with r have "snd ?rest = Inl Thrown" by simp
          with Some False nt k True show ?thesis
            by (simp add: Let_def bindE_def broadcast_def try_catch_def retE_def)
        next
          case nr: False
          with r have "snd ?rest = Inr (broadcasts (fst ?rest) \<noteq> [])" by simp
          with Some False nt k nr show ?thesis
            by (simp add: Let_def bindE_def broadcast_def try_catch_def retE_def)
        qed
      qed
    qed
  qed
qed

lemma fst_retE: "fst (retE a) = []" and snd_retE: "snd (retE a) = Inr a"
  by (simp_all add: retE_def)

lemma sendBulk_then_ret:
  "bindE (sendBulkNotification e tos subj bdy) (\<lambda>_. retE ())
     = (fst (sendBulkNotification e tos subj bdy), Inr ())"
  by (simp add: sendBulkNotification_eq bindE_def retE_def)

lemma teamBlock_result:
  "(\<forall>n \<in> set (broadcasts (fst (teamBlock e before updated))). nf_kind n = role_update)
   \<and> snd (teamBlock e before updated)
       = (if \<exists>n \<in> set (broadcasts (fst (teamBlock e before updated))). broadcast_throws e n
          then Inl Thrown else Inr ())"
proof (cases "teamChanges (d_equipe before) (d_equipe updated) = []")
  case True
  then show ?thesis by (simp add: teamBlock_def retE_def)
next
  case False
  let ?n = "\<lparr>nf_kind = role_update, nf_daoId = d_id updated, nf_taskId = None,
             nf_assignedTo = None,
             nf_detail = TeamChanges (teamChanges (d_equipe before) (d_equipe updated))\<rparr>"
  define inner :: "(subject, body, unit) eff" where
    "inner = (let emails = take 50 (map (\<lambda>m. the (m_email m))
                                     (filter (\<lambda>m. truthy (m_email m))
                                        (d_equipe updated @ d_equipe before)))
              in if length emails \<noteq> 0
                 then bindE (sendBulkNotification e emails MiseAJourEquipe
                        (BodyModifications (teamChanges (d_equipe before) (d_equipe updated))))
                        (\<lambda>_. retE ())
                 else retE ())"
  have i1: "broadcasts (fst inner) = []" and i2: "snd inner = Inr ()"
    unfolding inner_def by (simp_all add: Let_def sendBulk_then_ret fst_retE snd_retE)
  have tb: "teamBlock e before updated = bindE (broadcast e ?n) (\<lambda>_. inner)"
    using False unfolding inner_def by (simp add: teamBlock_def Let_def)
  show ?thesis
  proof (cases "broadcast_throws e ?n")
    case True
    then show ?thesis unfolding tb by (simp add: bindE_def broadcast_def)
  next
    case nt: False
    then show ?thesis unfolding tb by (simp add: bindE_def broadcast_def i1 i2)
  qed
qed

lemma changeBlock_result:
  "(\<forall>n \<in> set (broadcasts (fst (changeBlock e before updated i vd))).
      nf_kind n = role_update \<or> nf_kind n = task_updated)
   \<and> (snd (changeBlock e before updated i vd) = Inr True
        \<longleftrightarrow> (\<exists>n \<in> set (broadcasts (fst (changeBlock e before updated i vd))).
               nf_kind n = task_updated)
            \<and> \<not> (\<exists>n \<in> set (broadcasts (fst (changeBlock e before updated i vd))).
                   broadcast_throws e n))"
proof (cases before)
  case None
  then show ?thesis by (simp add: changeBlock_def bindE_def retE_def)
next
  case (Some b)
  let ?tb = "if v_equipe vd \<noteq> None then teamBlock e b updated else retE ()"
  let ?kb = "if v_tasks vd \<noteq> None then tasksBlock e b updated i else retE False"
  have cb: "changeBlock e before updated i vd = bindE ?tb (\<lambda>_. ?kb)"
    using Some by (simp add: changeBlock_def)
  have tk: "\<forall>n \<in> set (broadcasts (fst ?tb)). nf_kind n = role_update"
    and ts: "snd ?tb = (if \<exists>n \<in> set (broadcasts (fst ?tb)). broadcast_throws e n
                        then Inl Thrown else Inr ())"
    using teamBlock_result[of e b updated] by (simp_all add: retE_def)
  have k1: "\<forall>n \<in> set (broadcasts (fst ?kb)). nf_kind n = task_updated"
    and k2: "snd ?kb = (if \<exists>n \<in> set (broadcasts (fst ?kb)). broadcast_throws e n
                        then Inl Thrown else Inr (broadcasts (fst ?kb) \<noteq> []))"
    using tasksLoop_result[of e updated i] by (simp_all add: tasksBlock_def retE_def)
  show ?thesis
  proof (cases "\<exists>n \<in> set (broadcasts (fst ?tb)). broadcast_throws e n")
    case True
    with ts have "snd ?tb = Inl Thrown" by simp
    then have c: "changeBlock e before updated i vd = (fst ?tb, Inl Thrown)"
      unfolding cb by (simp add: bindE_def)
    show ?thesis unfolding c using tk True by auto
  next
    case False
    with ts have "snd ?tb = Inr ()" by simp
    then have e1: "fst (changeBlock e before updated i vd) = fst ?tb @ fst ?kb"
      and e2: "snd (changeBlock e before updated i vd) = snd ?kb"
      unfolding cb by (simp_all add: bindE_def)
    have ne: "broadcasts (fst ?kb) \<noteq> [] \<longleftrightarrow> (\<exists>n \<in> set (broadcasts (fst ?kb)). nf_kind n = task_updated)"
      using k1 by (cases "broadcasts (fst ?kb)") auto
    have A: "(\<exists>n \<in> set (broadcasts (fst ?tb @ fst ?kb)). nf_kind n = task_updated)
               \<longleftrightarrow> broadcasts (fst ?kb) \<noteq> []"
      using tk ne by auto
    have B: "(\<exists>n \<in> set (broadcasts (fst ?tb @ fst ?kb)). broadcast_throws e n)
               \<longleftrightarrow> (\<exists>n \<in> set (broadcasts (fst ?kb)). broadcast_throws e n)"
      using False by auto
    have C: "\<forall>n \<in> set (broadcasts (fst ?tb @ fst ?kb)).
            nf_kind n = role_update \<or> nf_kind n = task_updated" using tk k1 by auto
    have D: "snd ?kb = Inr True \<longleftrightarrow> broadcasts (fst ?kb) \<noteq> []
               \<and> \<not> (\<exists>n \<in> set (broadcasts (fst ?kb)). broadcast_throws e n)"
      unfolding k2 by auto
    show ?thesis unfolding e1 e2 using A B C D by blast
  qed
qed

lemma genericBlock_broadcasts:
  "map nf_kind (broadcasts (fst (genericBlock e before updated flag)))
     = (if (case before of Some b \<Rightarrow> changedFields b updated | None \<Rightarrow> []) \<noteq> [] \<or> \<not> flag
        then [dao_updated] else [])"
  by (simp add: genericBlock_def Let_def bindE_def broadcast_def retE_def split: sum.splits)

lemma ex_kind_iff: "(\<exists>n \<in> set ns. nf_kind n = k) \<longleftrightarrow> k \<in> set (map nf_kind ns)"
  by (induction ns) auto

lemma changedFields_iff:
  "changedFields before updated \<noteq> [] \<longleftrightarrow>
     (d_numeroListe before \<noteq> d_numeroListe updated \<or> d_objetDossier before \<noteq> d_objetDossier updated
      \<or> d_reference before \<noteq> d_reference updated
      \<or> d_autoriteContractante before \<noteq> d_autoriteContractante updated
      \<or> d_dateDepot before \<noteq> d_dateDepot updated)"
  by (simp add: changedFields_def)

text \<open>
  C6, as the route has it. The update route on an existing case file answers 200 with the
  stored case file, and it hands a \<^verbatim>\<open>dao_updated\<close> notification to the broadcast exactly
  when one of the five header fields differs between the case file before and after, or no
  \<^verbatim>\<open>task_updated\<close> notification was handed over in the request, or the broadcast of one of
  the team or task notifications of the request threw: the flag that suppresses the generic
  notification is recorded only when the first block of notifications runs to its end.
\<close>

theorem put_dao_generic_notification_iff:
  assumes "\<not> invalidId i" and "getDaoById st i = Some before"
  shows "\<exists>st' updated effs.
           put_dao e c st i validatedData = (st', Json 200 (Some updated), effs)
           \<and> getDaoById st' i = Some updated
           \<and> ((\<exists>n \<in> set (broadcasts effs). nf_kind n = dao_updated)
                \<longleftrightarrow> (d_numeroListe before \<noteq> d_numeroListe updated
                      \<or> d_objetDossier before \<noteq> d_objetDossier updated
                      \<or> d_reference before \<noteq> d_reference updated
                      \<or> d_autoriteContractante before \<noteq> d_autoriteContractante updated
                      \<or> d_dateDepot before \<noteq> d_dateDepot updated
                      \<or> \<not> (\<exists>n \<in> set (broadcasts effs). nf_kind n = task_updated)
                      \<or> (\<exists>n \<in> set (broadcasts effs).
                            nf_kind n \<noteq> dao_updated \<and> broadcast_throws e n)))"
proof -
  let ?u = "buildUpdates validatedData"
  let ?d = "applyUpdates before ?u (now c)"
  from assms(2) have f: "findById st i = Some before" by (simp add: getDaoById_def)
  from updateDao_found[OF f, of c ?u] obtain st' where
    u: "updateDao c st i ?u = (st', Some ?d)" and g: "findById st' i = Some ?d" by blast
  let ?cb = "changeBlock e (Some before) ?d i validatedData"
  let ?flag = "snd ?cb = Inr True"
  let ?gb = "genericBlock e (Some before) ?d ?flag"
  have fl: "(case snd ?cb of Inl e \<Rightarrow> None | Inr a \<Rightarrow> Some a) = Some True \<longleftrightarrow> ?flag"
    by (cases "snd ?cb") auto
  have r: "put_dao e c st i validatedData = (st', Json 200 (Some ?d), fst ?cb @ fst ?gb)"
    using assms(1,2) u
    by (simp add: put_dao_def Let_def respond_def bindE_def try_catch_def retE_def fl)
  from changeBlock_result[of e "Some before" ?d i validatedData]
  have c1: "\<forall>n \<in> set (broadcasts (fst ?cb)). nf_kind n = role_update \<or> nf_kind n = task_updated"
    and c2: "?flag \<longleftrightarrow> (\<exists>n \<in> set (broadcasts (fst ?cb)). nf_kind n = task_updated)
                      \<and> \<not> (\<exists>n \<in> set (broadcasts (fst ?cb)). broadcast_throws e n)" by blast+
  have gk: "map nf_kind (broadcasts (fst ?gb))
     = (if changedFields before ?d \<noteq> [] \<or> \<not> ?flag then [dao_updated] else [])"
    using genericBlock_broadcasts[of e "Some before" ?d ?flag] by simp
  have g0: "\<forall>n \<in> set (broadcasts (fst ?gb)). nf_kind n = dao_updated"
  proof
    fix n assume "n \<in> set (broadcasts (fst ?gb))"
    then have "nf_kind n \<in> set (map nf_kind (broadcasts (fst ?gb)))" by simp
    then show "nf_kind n = dao_updated" unfolding gk by (simp split: if_splits)
  qed
  have g1: "(\<exists>n \<in> set (broadcasts (fst ?gb)). nf_kind n = dao_updated)
             \<longleftrightarrow> (changedFields before ?d \<noteq> [] \<or> \<not> ?flag)"
    unfolding ex_kind_iff gk by simp
  have d: "(\<exists>n \<in> set (broadcasts (fst ?cb @ fst ?gb)). nf_kind n = dao_updated)
             \<longleftrightarrow> (changedFields before ?d \<noteq> [] \<or> \<not> ?flag)"
    using c1 g1 by auto
  have t: "(\<exists>n \<in> set (broadcasts (fst ?cb @ fst ?gb)). nf_kind n = task_updated)
             \<longleftrightarrow> (\<exists>n \<in> set (broadcasts (fst ?cb)). nf_kind n = task_updated)"
    using g0 by auto
  have x: "(\<exists>n \<in> set (broadcasts (fst ?cb @ fst ?gb)).
               nf_kind n \<noteq> dao_updated \<and> broadcast_throws e n)
             \<longleftrightarrow> (\<exists>n \<in> set (broadcasts (fst ?cb)). broadcast_throws e n)"
  proof -
    from c1 have c1': "\<forall>n \<in> set (broadcasts (fst ?cb)). nf_kind n \<noteq> dao_updated" by auto
    have "set (broadcasts (fst ?cb @ fst ?gb))
            = set (broadcasts (fst ?cb)) \<union> set (broadcasts (fst ?gb))" by simp
    with g0 c1' show ?thesis by blast
  qed
  have "(\<exists>n \<in> set (broadcasts (fst ?cb @ fst ?gb)). nf_kind n = dao_updated)
           \<longleftrightarrow> (d_numeroListe before \<noteq> d_numeroListe ?d
                      \<or> d_objetDossier before \<noteq> d_objetDossier ?d
                      \<or> d_reference before \<noteq> d_reference ?d
                      \<or> d_autoriteContractante before \<noteq> d_autoriteContractante ?d
                      \<or> d_dateDepot before \<noteq> d_dateDepot ?d
                      \<or> \<not> (\<exists>n \<in> set (broadcasts (fst ?cb @ fst ?gb)). nf_kind n = task_updated)
                      \<or> (\<exists>n \<in> set (broadcasts (fst ?cb @ fst ?gb)).
                            nf_kind n \<noteq> dao_updated \<and> broadcast_throws e n))"
    using d t x c2 changedFields_iff[of before ?d] by blast
  with r g show ?thesis unfolding getDaoById_def by blast
qed

lemmas put_dao_eval = put_dao_def store_defs example_defs buildUpdates_def
      sanitizedIfTruthy_def truthy_def respond_def bindE_def try_catch_def retE_def
      changeBlock_def tasksBlock_def js_Map_def taskDiffs_def assignmentChange_def orZero_def
      broadcast_def genericBlock_def changedFields_def emailAllUsers_def getAllUsers_def
      sendBulkNotification_eq

text \<open>
  C6, the counterexample. Tasks 2 and 3 change and no header field does; the notification
  about task 2 is broadcast, the broadcast about task 3 throws, and the generic
  \<^verbatim>\<open>dao_updated\<close> notification is broadcast all the same.
\<close>

theorem put_dao_notifies_twice_after_throw:
  "map nf_kind (broadcasts (snd (snd (put_dao lateThrow ctx0 store1 ''d1'' twoTasksBody))))
     = [task_updated, task_updated, dao_updated]
   \<and> map (broadcast_throws lateThrow)
        (broadcasts (snd (snd (put_dao lateThrow ctx0 store1 ''d1'' twoTasksBody))))
     = [False, True, False]
   \<and> changedFields dao1 (the (getDaoById (fst (put_dao lateThrow ctx0 store1 ''d1'' twoTasksBody)) ''d1''))
     = []"
  by (simp add: put_dao_eval twoTasksBody_def lateThrow_def)

lemma put_dao_tasks_only_example:
  "map nf_kind (broadcasts (snd (snd (put_dao quiet ctx0 store1 ''d1'' tasksOnlyBody)))) = [task_updated]"
  by (simp add: put_dao_def store_defs example_defs tasksOnlyBody_def buildUpdates_def
      sanitizedIfTruthy_def truthy_def respond_def bindE_def try_catch_def retE_def
      changeBlock_def tasksBlock_def js_Map_def taskDiffs_def assignmentChange_def orZero_def
      broadcast_def quiet_def genericBlock_def changedFields_def)

theorem put_dao_generic_notification_iff_witness:
  "(\<exists>st' updated effs.
      put_dao quiet ctx0 store1 ''d1'' tasksOnlyBody = (st', Json 200 (Some updated), effs)
      \<and> d_objetDossier dao1 = d_objetDossier updated
      \<and> (\<exists>n \<in> set (broadcasts effs). nf_kind n = task_updated)
      \<and> \<not> (\<exists>n \<in> set (broadcasts effs). nf_kind n = dao_updated))
   \<and> (\<exists>st' updated effs.
      put_dao quiet ctx0 store1 ''d1'' subjectBody = (st', Json 200 (Some updated), effs)
      \<and> d_objetDossier dao1 \<noteq> d_objetDossier updated
      \<and> (\<exists>n \<in> set (broadcasts effs). nf_kind n = dao_updated))"
proof -
  have a: "\<not> invalidId ''d1''" by (simp add: invalidId_def)
  have b: "getDaoById store1 ''d1'' = Some dao1" by (simp add: store_defs store1_def dao1_def)
  have q: "\<not> broadcast_throws quiet n" for n by (simp add: quiet_def)
  note T = put_dao_generic_notification_iff[OF a b, of quiet ctx0]
  from T[of tasksOnlyBody] obtain st1 u1 e1 where
    r1: "put_dao quiet ctx0 store1 ''d1'' tasksOnlyBody = (st1, Json 200 (Some u1), e1)"
    and i1: "(\<exists>n \<in> set (broadcasts e1). nf_kind n = dao_updated)
                \<longleftrightarrow> (d_numeroListe dao1 \<noteq> d_numeroListe u1
                      \<or> d_objetDossier dao1 \<noteq> d_objetDossier u1
                      \<or> d_reference dao1 \<noteq> d_reference u1
                      \<or> d_autoriteContractante dao1 \<noteq> d_autoriteContractante u1
                      \<or> d_dateDepot dao1 \<noteq> d_dateDepot u1
                      \<or> \<not> (\<exists>n \<in> set (broadcasts e1). nf_kind n = task_updated)
                      \<or> (\<exists>n \<in> set (broadcasts e1).
                            nf_kind n \<noteq> dao_updated \<and> broadcast_throws quiet n))" by blast
  have k1: "map nf_kind (broadcasts e1) = [task_updated]"
    using put_dao_tasks_only_example unfolding r1 by simp
  have h1: "d_numeroListe dao1 = d_numeroListe u1 \<and> d_objetDossier dao1 = d_objetDossier u1
      \<and> d_reference dao1 = d_reference u1
      \<and> d_autoriteContractante dao1 = d_autoriteContractante u1
      \<and> d_dateDepot dao1 = d_dateDepot u1"
  proof -
    have "fst (snd (put_dao quiet ctx0 store1 ''d1'' tasksOnlyBody))
            = Json 200 (Some (dao1\<lparr>d_tasks := the (v_tasks tasksOnlyBody), d_updatedAt := now ctx0\<rparr>))"
      by (simp add: put_dao_def store_defs store1_def dao1_def tasksOnlyBody_def buildUpdates_def
          sanitizedIfTruthy_def truthy_def respond_def bindE_def try_catch_def retE_def)
    then have "u1 = dao1\<lparr>d_tasks := the (v_tasks tasksOnlyBody), d_updatedAt := now ctx0\<rparr>"
      unfolding r1 by simp
    then show ?thesis by simp
  qed
  have t1: "\<exists>n \<in> set (broadcasts e1). nf_kind n = task_updated"
    unfolding ex_kind_iff k1 by simp
  from i1 h1 t1 q have n1: "\<not> (\<exists>n \<in> set (broadcasts e1). nf_kind n = dao_updated)" by blast
  from T[of subjectBody] obtain st2 u2 e2 where
    r2: "put_dao quiet ctx0 store1 ''d1'' subjectBody = (st2, Json 200 (Some u2), e2)"
    and i2: "(\<exists>n \<in> set (broadcasts e2). nf_kind n = dao_updated)
                \<longleftrightarrow> (d_numeroListe dao1 \<noteq> d_numeroListe u2
                      \<or> d_objetDossier dao1 \<noteq> d_objetDossier u2
                      \<or> d_reference dao1 \<noteq> d_reference u2
                      \<or> d_autoriteContractante dao1 \<noteq> d_autoriteContractante u2
                      \<or> d_dateDepot dao1 \<noteq> d_dateDepot u2
                      \<or> \<not> (\<exists>n \<in> set (broadcasts e2). nf_kind n = task_updated)
                      \<or> (\<exists>n \<in> set (broadcasts e2).
                            nf_kind n \<noteq> dao_updated \<and> broadcast_throws quiet n))" by blast
  have h2: "d_objetDossier dao1 \<noteq> d_objetDossier u2"
  proof -
    have "fst (snd (put_dao quiet ctx0 store1 ''d1'' subjectBody))
            = Json 200 (Some (dao1\<lparr>d_objetDossier := ''Pont'', d_updatedAt := now ctx0\<rparr>))"
      by (simp add: put_dao_def store_defs store1_def dao1_def subjectBody_def buildUpdates_def
          sanitizedIfTruthy_def truthy_def respond_def bindE_def try_catch_def retE_def
          sanitizeString_def trim_def isWhiteSpace_def)
    then have "u2 = dao1\<lparr>d_objetDossier := ''Pont'', d_updatedAt := now ctx0\<rparr>"
      unfolding r2 by simp
    then show ?thesis by (simp add: dao1_def)
  qed
  from i2 h2 have d2: "\<exists>n \<in> set (broadcasts e2). nf_kind n = dao_updated" by blast
  from r1 h1 t1 n1 r2 h2 d2 show ?thesis by blast
qed

section \<open>Failures of notifications and mail\<close>

lemma respond_try_catch2:
  "respond st code (bindE (try_catch m) (\<lambda>flag. bindE (try_catch (g flag)) (\<lambda>_. retE r)))
     = (st, r, fst m @ fst (g (case snd m of Inl e \<Rightarrow> None | Inr a \<Rightarrow> Some a)))"
  by (simp add: respond_def bindE_def try_catch_def retE_def)

lemma applyUpdates_tasks:
  "applyUpdates dao (noUpdates\<lparr>u_tasks := Some ts\<rparr>) s = dao\<lparr>d_tasks := ts, d_updatedAt := s\<rparr>"
  by (simp add: applyUpdates_def noUpdates_def)

lemma updateDao_tasks:
  assumes "getDaoById st i = Some dao"
  shows "\<exists>st'. updateDao c st i (noUpdates\<lparr>u_tasks := Some ts\<rparr>)
                  = (st', Some (dao\<lparr>d_tasks := ts, d_updatedAt := now c\<rparr>))
               \<and> getDaoById st' i = Some (dao\<lparr>d_tasks := ts, d_updatedAt := now c\<rparr>)"
  using updateDao_found[of st i dao c "noUpdates\<lparr>u_tasks := Some ts\<rparr>"] assms
  unfolding applyUpdates_tasks getDaoById_def by blast

lemma findIndex_Some:
  "findIndex P xs = Some k \<Longrightarrow> k < length xs \<and> P (xs ! k)"
  by (induction xs arbitrary: k) (auto split: if_splits)

lemma sanitize_examples:
  "sanitizeString ''Pont'' = ''Pont'' \<and> sanitizeString ''Garantie'' = ''Garantie''
   \<and> sanitizeString ''Devis'' = ''Devis'' \<and> sanitizeString ''m2'' = ''m2''"
  by (simp add: sanitizeString_def trim_def isWhiteSpace_def)

text \<open>
  C8. Whatever the environment makes throw (every broadcast, the look-up of the users, every
  mail), each of the seven mutation routes whose persistence step succeeds answers with its
  success status and the updated case file, and the store holds that case file afterwards:
  201 and the new case file appended to the store for a creation; 200 and the case file
  with the validated fields applied for an update; 200 and the tasks in the requested order
  for a reorder; 200 and the task replaced by its updated version for an update of task
  fields; 201 and the new task appended for an addition; 200 and the task renamed for a
  renaming; the id and name of the deleted task and the case file without it for a deletion.
  No hypothesis is made on the environment.
\<close>

theorem handle_succeeds_whatever_fails:
  assumes "\<not> invalidId i" and "getDaoById st i = Some dao"
  shows "(\<exists>newDao effs.
            handle e c DEFAULT_TASKS st (PostDao cb) = (st @ [newDao], Json 201 (Some newDao), effs)
            \<and> d_id newDao = dateNow c
            \<and> d_objetDossier newDao = sanitizeString (c_objetDossier cb)
            \<and> d_equipe newDao = map sanitizeMember (c_equipe cb)
            \<and> d_createdAt newDao = now c)
       \<and> (\<exists>st' effs.
            handle e c DEFAULT_TASKS st (PutDao i ub)
              = (st', Json 200 (Some (applyUpdates dao (buildUpdates ub) (now c))), effs)
            \<and> getDaoById st' i = Some (applyUpdates dao (buildUpdates ub) (now c)))
       \<and> (taskIds \<noteq> [] \<and> set taskIds \<subseteq> set (map t_id (d_tasks dao))
            \<and> length taskIds = length (d_tasks dao)
            \<and> set (map t_id (d_tasks dao)) \<subseteq> set taskIds \<longrightarrow>
           (\<exists>st' effs.
              handle e c DEFAULT_TASKS st (PutTasksReorder i taskIds)
                = (st', Json 200 (Some (dao\<lparr>d_tasks :=
                       map (\<lambda>k. the (find (\<lambda>t. t_id t = k) (d_tasks dao))) taskIds,
                     d_updatedAt := now c\<rparr>)), effs)
              \<and> getDaoById st' i = Some (dao\<lparr>d_tasks :=
                       map (\<lambda>k. the (find (\<lambda>t. t_id t = k) (d_tasks dao))) taskIds,
                     d_updatedAt := now c\<rparr>)))
       \<and> (1 \<le> k \<and> find (\<lambda>t. t_id t = k) (d_tasks dao) = Some previous \<longrightarrow>
           (\<exists>st' effs.
              handle e c DEFAULT_TASKS st (PutTask i (Some k) tb)
                = (st', Json 200 (Some (dao\<lparr>d_tasks :=
                       replaceFirst (\<lambda>t. t_id t = k) (applyTaskUpdate c tb previous) (d_tasks dao),
                     d_updatedAt := now c\<rparr>)), effs)
              \<and> getDaoById st' i = Some (dao\<lparr>d_tasks :=
                       replaceFirst (\<lambda>t. t_id t = k) (applyTaskUpdate c tb previous) (d_tasks dao),
                     d_updatedAt := now c\<rparr>)))
       \<and> (\<exists>st' newTask effs.
            handle e c DEFAULT_TASKS st (PostTask i ctb)
              = (st', Json 201 (Some (dao\<lparr>d_tasks := d_tasks dao @ [newTask],
                     d_updatedAt := now c\<rparr>)), effs)
            \<and> getDaoById st' i = Some (dao\<lparr>d_tasks := d_tasks dao @ [newTask],
                     d_updatedAt := now c\<rparr>)
            \<and> t_name newTask = sanitizeString (ct_name ctb)
            \<and> t_isApplicable newTask = ct_isApplicable ctb)
       \<and> (1 \<le> k \<and> find (\<lambda>t. t_id t = k) (d_tasks dao) = Some previous \<longrightarrow>
           (\<exists>st' effs.
              handle e c DEFAULT_TASKS st (PutTaskName i (Some k) nm)
                = (st', Json 200 (Some (dao\<lparr>d_tasks :=
                       replaceFirst (\<lambda>t. t_id t = k)
                         (previous\<lparr>t_name := sanitizeString nm, t_lastUpdatedBy := Some (userId c),
                            t_lastUpdatedAt := Some (now c)\<rparr>) (d_tasks dao),
                     d_updatedAt := now c\<rparr>)), effs)
              \<and> getDaoById st' i = Some (dao\<lparr>d_tasks :=
                       replaceFirst (\<lambda>t. t_id t = k)
                         (previous\<lparr>t_name := sanitizeString nm, t_lastUpdatedBy := Some (userId c),
                            t_lastUpdatedAt := Some (now c)\<rparr>) (d_tasks dao),
                     d_updatedAt := now c\<rparr>)))
       \<and> (1 \<le> k \<and> findIndex (\<lambda>t. t_id t = k) (d_tasks dao) = Some idx \<longrightarrow>
           (\<exists>st' effs.
              handle e c DEFAULT_TASKS st (DeleteTask i (Some k))
                = (st', JsonDeleted k (t_name (d_tasks dao ! idx))
                     (Some (dao\<lparr>d_tasks := take idx (d_tasks dao) @ drop (Suc idx) (d_tasks dao),
                        d_updatedAt := now c\<rparr>)), effs)
              \<and> getDaoById st' i = Some (dao\<lparr>d_tasks :=
                        take idx (d_tasks dao) @ drop (Suc idx) (d_tasks dao),
                        d_updatedAt := now c\<rparr>)))"
proof (intro conjI impI)
  show "\<exists>newDao effs.
            handle e c DEFAULT_TASKS st (PostDao cb) = (st @ [newDao], Json 201 (Some newDao), effs)
            \<and> d_id newDao = dateNow c
            \<and> d_objetDossier newDao = sanitizeString (c_objetDossier cb)
            \<and> d_equipe newDao = map sanitizeMember (c_equipe cb)
            \<and> d_createdAt newDao = now c"
    by (simp add: post_dao_def Let_def respond_try_catch createDao_def add_def)
next
  let ?d = "applyUpdates dao (buildUpdates ub) (now c)"
  from assms(2) have f: "findById st i = Some dao" by (simp add: getDaoById_def)
  from updateDao_found[OF f, of c "buildUpdates ub"] obtain st' where
    u: "updateDao c st i (buildUpdates ub) = (st', Some ?d)" and g: "findById st' i = Some ?d"
    by blast
  have "\<exists>effs. handle e c DEFAULT_TASKS st (PutDao i ub) = (st', Json 200 (Some ?d), effs)"
    using assms u by (simp add: put_dao_def Let_def respond_try_catch2)
  with g show "\<exists>st' effs.
            handle e c DEFAULT_TASKS st (PutDao i ub) = (st', Json 200 (Some ?d), effs)
            \<and> getDaoById st' i = Some ?d" unfolding getDaoById_def by blast
next
  assume h: "taskIds \<noteq> [] \<and> set taskIds \<subseteq> set (map t_id (d_tasks dao))
            \<and> length taskIds = length (d_tasks dao)
            \<and> set (map t_id (d_tasks dao)) \<subseteq> set taskIds"
  let ?ts = "map (\<lambda>k. the (find (\<lambda>t. t_id t = k) (d_tasks dao))) taskIds"
  let ?d = "dao\<lparr>d_tasks := ?ts, d_updatedAt := now c\<rparr>"
  from updateDao_tasks[OF assms(2), of c ?ts] obtain st' where
    u: "updateDao c st i (noUpdates\<lparr>u_tasks := Some ?ts\<rparr>) = (st', Some ?d)"
    and g: "getDaoById st' i = Some ?d" by blast
  from h have inv: "filter (\<lambda>tid. tid \<notin> set (map t_id (d_tasks dao))) taskIds = []"
    by (auto simp: filter_empty_conv)
  from h have all: "list_all (\<lambda>tid. tid \<in> set taskIds) (map t_id (d_tasks dao))"
    by (auto simp: list_all_iff)
  from h have ne: "taskIds \<noteq> []" "length taskIds = length (d_tasks dao)" by blast+
  from ne have ne2: "d_tasks dao \<noteq> []" by auto
  have "\<exists>effs. handle e c DEFAULT_TASKS st (PutTasksReorder i taskIds)
                   = (st', Json 200 (Some ?d), effs)"
    using assms ne ne2 u inv all
    by (simp add: put_tasks_reorder_def Let_def respond_try_catch del: set_map)
  with g show "\<exists>st' effs.
              handle e c DEFAULT_TASKS st (PutTasksReorder i taskIds)
                = (st', Json 200 (Some ?d), effs)
              \<and> getDaoById st' i = Some ?d" by blast
next
  assume h: "1 \<le> k \<and> find (\<lambda>t. t_id t = k) (d_tasks dao) = Some previous"
  let ?ts = "replaceFirst (\<lambda>t. t_id t = k) (applyTaskUpdate c tb previous) (d_tasks dao)"
  let ?d = "dao\<lparr>d_tasks := ?ts, d_updatedAt := now c\<rparr>"
  from updateDao_tasks[OF assms(2), of c ?ts] obtain st' where
    u: "updateDao c st i (noUpdates\<lparr>u_tasks := Some ?ts\<rparr>) = (st', Some ?d)"
    and g: "getDaoById st' i = Some ?d" by blast
  have "\<exists>effs. handle e c DEFAULT_TASKS st (PutTask i (Some k) tb) = (st', Json 200 (Some ?d), effs)"
    using assms h u by (simp add: put_task_def Let_def respond_try_catch)
  with g show "\<exists>st' effs.
              handle e c DEFAULT_TASKS st (PutTask i (Some k) tb) = (st', Json 200 (Some ?d), effs)
              \<and> getDaoById st' i = Some ?d" by blast
next
  let ?new = "\<lparr>t_id = newTaskId (map t_id (d_tasks dao)),
                   t_name = sanitizeString (ct_name ctb),
                   t_progress = (if ct_isApplicable ctb then ct_progress ctb else None),
                   t_comment = (if truthy (ct_comment ctb)
                                then map_option sanitizeString (ct_comment ctb) else None),
                   t_isApplicable = ct_isApplicable ctb,
                   t_assignedTo = ct_assignedTo ctb,
                   t_lastUpdatedBy = Some (userId c),
                   t_lastUpdatedAt = Some (now c)\<rparr>"
  let ?ts = "d_tasks dao @ [?new]"
  let ?d = "dao\<lparr>d_tasks := ?ts, d_updatedAt := now c\<rparr>"
  from updateDao_tasks[OF assms(2), of c ?ts] obtain st' where
    u: "updateDao c st i (noUpdates\<lparr>u_tasks := Some ?ts\<rparr>) = (st', Some ?d)"
    and g: "getDaoById st' i = Some ?d" by blast
  have "\<exists>effs. handle e c DEFAULT_TASKS st (PostTask i ctb) = (st', Json 201 (Some ?d), effs)"
    using assms u by (simp add: post_task_def Let_def respond_try_catch)
  moreover have "t_name ?new = sanitizeString (ct_name ctb)
      \<and> t_isApplicable ?new = ct_isApplicable ctb" by simp
  ultimately show "\<exists>st' newTask effs.
            handle e c DEFAULT_TASKS st (PostTask i ctb)
              = (st', Json 201 (Some (dao\<lparr>d_tasks := d_tasks dao @ [newTask],
                     d_updatedAt := now c\<rparr>)), effs)
            \<and> getDaoById st' i = Some (dao\<lparr>d_tasks := d_tasks dao @ [newTask],
                     d_updatedAt := now c\<rparr>)
            \<and> t_name newTask = sanitizeString (ct_name ctb)
            \<and> t_isApplicable newTask = ct_isApplicable ctb"
    using g by blast
next
  assume h: "1 \<le> k \<and> find (\<lambda>t. t_id t = k) (d_tasks dao) = Some previous"
  let ?ts = "replaceFirst (\<lambda>t. t_id t = k)
                         (previous\<lparr>t_name := sanitizeString nm, t_lastUpdatedBy := Some (userId c),
                            t_lastUpdatedAt := Some (now c)\<rparr>) (d_tasks dao)"
  let ?d = "dao\<lparr>d_tasks := ?ts, d_updatedAt := now c\<rparr>"
  from updateDao_tasks[OF assms(2), of c ?ts] obtain st' where
    u: "updateDao c st i (noUpdates\<lparr>u_tasks := Some ?ts\<rparr>) = (st', Some ?d)"
    and g: "getDaoById st' i = Some ?d" by blast
  have "\<exists>effs. handle e c DEFAULT_TASKS st (PutTaskName i (Some k) nm)
                  = (st', Json 200 (Some ?d), effs)"
    using assms h u by (simp add: put_task_name_def Let_def respond_try_catch)
  with g show "\<exists>st' effs.
              handle e c DEFAULT_TASKS st (PutTaskName i (Some k) nm)
                = (st', Json 200 (Some ?d), effs)
              \<and> getDaoById st' i = Some ?d" by blast
next
  assume h: "1 \<le> k \<and> findIndex (\<lambda>t. t_id t = k) (d_tasks dao) = Some idx"
  let ?ts = "take idx (d_tasks dao) @ drop (Suc idx) (d_tasks dao)"
  let ?d = "dao\<lparr>d_tasks := ?ts, d_updatedAt := now c\<rparr>"
  from h findIndex_Some[of "\<lambda>t. t_id t = k" "d_tasks dao" idx]
  have tid: "t_id (d_tasks dao ! idx) = k" by blast
  from updateDao_tasks[OF assms(2), of c ?ts] obtain st' where
    u: "updateDao c st i (noUpdates\<lparr>u_tasks := Some ?ts\<rparr>) = (st', Some ?d)"
    and g: "getDaoById st' i = Some ?d" by blast
  have "\<exists>effs. handle e c DEFAULT_TASKS st (DeleteTask i (Some k))
                  = (st', JsonDeleted k (t_name (d_tasks dao ! idx)) (Some ?d), effs)"
    using assms h u tid by (simp add: delete_task_def Let_def respond_try_catch splice1_def)
  with g show "\<exists>st' effs.
              handle e c DEFAULT_TASKS st (DeleteTask i (Some k))
                = (st', JsonDeleted k (t_name (d_tasks dao ! idx)) (Some ?d), effs)
              \<and> getDaoById st' i = Some ?d" by blast
qed

theorem handle_succeeds_whatever_fails_witness:
  "(\<forall>n. broadcast_throws failing n) \<and> getAllUsers_result failing = None
   \<and> (\<forall>to s b. sendMail_throws failing to s b)
   \<and> (\<exists>newDao effs.
        handle failing ctx0 template0 store1 (PostDao createBody0)
          = (store1 @ [newDao], Json 201 (Some newDao), effs)
        \<and> d_id newDao = dateNow ctx0 \<and> d_objetDossier newDao = ''Pont'')
   \<and> (\<exists>st' effs.
        handle failing ctx0 template0 store1 (PutDao ''d1'' subjectBody)
          = (st', Json 200 (Some (dao1\<lparr>d_objetDossier := ''Pont'', d_updatedAt := now ctx0\<rparr>)), effs)
        \<and> getDaoById st' ''d1'' = Some (dao1\<lparr>d_objetDossier := ''Pont'', d_updatedAt := now ctx0\<rparr>))
   \<and> (\<exists>st' effs.
        handle failing ctx0 template0 store1 (PutTasksReorder ''d1'' [3, 2, 1])
          = (st', Json 200 (Some (dao1\<lparr>d_tasks :=
                 [mkTask 3 ''Offre'', mkTask 2 ''Caution'', mkTask 1 ''Resume''],
               d_updatedAt := now ctx0\<rparr>)), effs)
        \<and> getDaoById st' ''d1'' = Some (dao1\<lparr>d_tasks :=
                 [mkTask 3 ''Offre'', mkTask 2 ''Caution'', mkTask 1 ''Resume''],
               d_updatedAt := now ctx0\<rparr>))
   \<and> (\<exists>st' effs.
        handle failing ctx0 template0 store1 (PutTask ''d1'' (Some 2) reassignBody)
          = (st', Json 200 (Some (dao1\<lparr>d_tasks :=
                 [mkTask 1 ''Resume'',
                  (mkTask 2 ''Caution'')\<lparr>t_assignedTo := Some ''m2'',
                     t_lastUpdatedBy := Some ''u1'', t_lastUpdatedAt := Some (now ctx0)\<rparr>,
                  mkTask 3 ''Offre''],
               d_updatedAt := now ctx0\<rparr>)), effs)
        \<and> getDaoById st' ''d1'' = Some (dao1\<lparr>d_tasks :=
                 [mkTask 1 ''Resume'',
                  (mkTask 2 ''Caution'')\<lparr>t_assignedTo := Some ''m2'',
                     t_lastUpdatedBy := Some ''u1'', t_lastUpdatedAt := Some (now ctx0)\<rparr>,
                  mkTask 3 ''Offre''],
               d_updatedAt := now ctx0\<rparr>))
   \<and> (\<exists>st' newTask effs.
        handle failing ctx0 template0 store1 (PostTask ''d1'' newTaskBody)
          = (st', Json 201 (Some (dao1\<lparr>d_tasks := d_tasks dao1 @ [newTask],
               d_updatedAt := now ctx0\<rparr>)), effs)
        \<and> getDaoById st' ''d1'' = Some (dao1\<lparr>d_tasks := d_tasks dao1 @ [newTask],
               d_updatedAt := now ctx0\<rparr>)
        \<and> t_name newTask = ''Devis'')
   \<and> (\<exists>st' effs.
        handle failing ctx0 template0 store1 (PutTaskName ''d1'' (Some 2) ''Garantie'')
          = (st', Json 200 (Some (dao1\<lparr>d_tasks :=
                 [mkTask 1 ''Resume'',
                  (mkTask 2 ''Caution'')\<lparr>t_name := ''Garantie'',
                     t_lastUpdatedBy := Some ''u1'', t_lastUpdatedAt := Some (now ctx0)\<rparr>,
                  mkTask 3 ''Offre''],
               d_updatedAt := now ctx0\<rparr>)), effs)
        \<and> getDaoById st' ''d1'' = Some (dao1\<lparr>d_tasks :=
                 [mkTask 1 ''Resume'',
                  (mkTask 2 ''Caution'')\<lparr>t_name := ''Garantie'',
                     t_lastUpdatedBy := Some ''u1'', t_lastUpdatedAt := Some (now ctx0)\<rparr>,
                  mkTask 3 ''Offre''],
               d_updatedAt := now ctx0\<rparr>))
   \<and> (\<exists>st' effs.
        handle failing ctx0 template0 store1 (DeleteTask ''d1'' (Some 2))
          = (st', JsonDeleted 2 ''Caution''
               (Some (dao1\<lparr>d_tasks := [mkTask 1 ''Resume'', mkTask 3 ''Offre''],
                  d_updatedAt := now ctx0\<rparr>)), effs)
        \<and> getDaoById st' ''d1'' = Some (dao1\<lparr>d_tasks :=
                 [mkTask 1 ''Resume'', mkTask 3 ''Offre''], d_updatedAt := now ctx0\<rparr>))"
proof -
  have a: "\<not> invalidId ''d1''" by (simp add: invalidId_def)
  have b: "getDaoById store1 ''d1'' = Some dao1" by (simp add: store_defs store1_def dao1_def)
  have f: "(\<forall>n. broadcast_throws failing n) \<and> getAllUsers_result failing = None
     \<and> (\<forall>to s b. sendMail_throws failing to s b)" by (simp add: failing_def)
  have ts: "d_tasks dao1 = [mkTask 1 ''Resume'', mkTask 2 ''Caution'', mkTask 3 ''Offre'']"
    by (simp add: dao1_def)
  have p1: "d_objetDossier (x::Dao) = sanitizeString (c_objetDossier createBody0)
              \<longleftrightarrow> d_objetDossier x = ''Pont''" for x
    using sanitize_examples by (simp add: createBody0_def)
  have p2: "applyUpdates dao1 (buildUpdates subjectBody) (now ctx0)
              = dao1\<lparr>d_objetDossier := ''Pont'', d_updatedAt := now ctx0\<rparr>"
    using sanitize_examples
    by (simp add: applyUpdates_def buildUpdates_def subjectBody_def sanitizedIfTruthy_def truthy_def)
  have p3: "[3, 2, 1] \<noteq> ([]::int list) \<and> set [3, 2, 1] \<subseteq> set (map t_id (d_tasks dao1))
      \<and> length [3, 2, 1::int] = length (d_tasks dao1)
      \<and> set (map t_id (d_tasks dao1)) \<subseteq> set [3, 2, 1]"
    by (simp add: ts mkTask_def)
  have p3': "map (\<lambda>k. the (find (\<lambda>t. t_id t = k) (d_tasks dao1))) [3, 2, 1]
               = [mkTask 3 ''Offre'', mkTask 2 ''Caution'', mkTask 1 ''Resume'']"
    by (simp add: ts mkTask_def)
  have p4: "(1::int) \<le> 2 \<and> find (\<lambda>t. t_id t = 2) (d_tasks dao1) = Some (mkTask 2 ''Caution'')"
    by (simp add: ts mkTask_def)
  have p4': "replaceFirst (\<lambda>t. t_id t = 2) (applyTaskUpdate ctx0 reassignBody (mkTask 2 ''Caution''))
                (d_tasks dao1)
              = [mkTask 1 ''Resume'',
                  (mkTask 2 ''Caution'')\<lparr>t_assignedTo := Some ''m2'',
                     t_lastUpdatedBy := Some ''u1'', t_lastUpdatedAt := Some (now ctx0)\<rparr>,
                  mkTask 3 ''Offre'']"
    using sanitize_examples
    by (simp add: ts mkTask_def applyTaskUpdate_def reassignBody_def ctx0_def Let_def)
  have p5: "t_name (x::DaoTask) = sanitizeString (ct_name newTaskBody) \<longleftrightarrow> t_name x = ''Devis''" for x
    using sanitize_examples by (simp add: newTaskBody_def)
  have p6': "replaceFirst (\<lambda>t. t_id t = 2)
                (mkTask 2 ''Caution''\<lparr>t_name := sanitizeString ''Garantie'',
                   t_lastUpdatedBy := Some (userId ctx0), t_lastUpdatedAt := Some (now ctx0)\<rparr>)
                (d_tasks dao1)
              = [mkTask 1 ''Resume'',
                  (mkTask 2 ''Caution'')\<lparr>t_name := ''Garantie'',
                     t_lastUpdatedBy := Some ''u1'', t_lastUpdatedAt := Some (now ctx0)\<rparr>,
                  mkTask 3 ''Offre'']"
    using sanitize_examples by (simp add: ts mkTask_def ctx0_def)
  have p7: "(1::int) \<le> 2 \<and> findIndex (\<lambda>t. t_id t = 2) (d_tasks dao1) = Some 1"
    by (simp add: ts mkTask_def)
  have p7': "t_name (d_tasks dao1 ! 1) = ''Caution''
     \<and> take 1 (d_tasks dao1) @ drop (Suc 1) (d_tasks dao1) = [mkTask 1 ''Resume'', mkTask 3 ''Offre'']"
    by (simp add: ts mkTask_def)
  note T = handle_succeeds_whatever_fails[OF a b, where e = failing and c = ctx0
      and DEFAULT_TASKS = template0 and cb = createBody0 and ub = subjectBody
      and taskIds = "[3, 2, 1]" and k = 2 and previous = "mkTask 2 ''Caution''"
      and tb = reassignBody and ctb = newTaskBody and nm = "''Garantie''" and idx = 1]
  from T have c1: "\<exists>newDao effs.
        handle failing ctx0 template0 store1 (PostDao createBody0)
          = (store1 @ [newDao], Json 201 (Some newDao), effs)
        \<and> d_id newDao = dateNow ctx0 \<and> d_objetDossier newDao = ''Pont''"
    unfolding p1 by blast
  from T have c2: "\<exists>st' effs.
        handle failing ctx0 template0 store1 (PutDao ''d1'' subjectBody)
          = (st', Json 200 (Some (dao1\<lparr>d_objetDossier := ''Pont'', d_updatedAt := now ctx0\<rparr>)), effs)
        \<and> getDaoById st' ''d1'' = Some (dao1\<lparr>d_objetDossier := ''Pont'', d_updatedAt := now ctx0\<rparr>)"
    unfolding p2 by blast
  from T p3 have c3: "\<exists>st' effs.
        handle failing ctx0 template0 store1 (PutTasksReorder ''d1'' [3, 2, 1])
          = (st', Json 200 (Some (dao1\<lparr>d_tasks :=
                 [mkTask 3 ''Offre'', mkTask 2 ''Caution'', mkTask 1 ''Resume''],
               d_updatedAt := now ctx0\<rparr>)), effs)
        \<and> getDaoById st' ''d1'' = Some (dao1\<lparr>d_tasks :=
                 [mkTask 3 ''Offre'', mkTask 2 ''Caution'', mkTask 1 ''Resume''],
               d_updatedAt := now ctx0\<rparr>)"
    unfolding p3' by blast
  from T p4 have c4: "\<exists>st' effs.
        handle failing ctx0 template0 store1 (PutTask ''d1'' (Some 2) reassignBody)
          = (st', Json 200 (Some (dao1\<lparr>d_tasks :=
                 [mkTask 1 ''Resume'',
                  (mkTask 2 ''Caution'')\<lparr>t_assignedTo := Some ''m2'',
                     t_lastUpdatedBy := Some ''u1'', t_lastUpdatedAt := Some (now ctx0)\<rparr>,
                  mkTask 3 ''Offre''],
               d_updatedAt := now ctx0\<rparr>)), effs)
        \<and> getDaoById st' ''d1'' = Some (dao1\<lparr>d_tasks :=
                 [mkTask 1 ''Resume'',
                  (mkTask 2 ''Caution'')\<lparr>t_assignedTo := Some ''m2'',
                     t_lastUpdatedBy := Some ''u1'', t_lastUpdatedAt := Some (now ctx0)\<rparr>,
                  mkTask 3 ''Offre''],
               d_updatedAt := now ctx0\<rparr>)"
    unfolding p4' by blast
  from T have c5: "\<exists>st' newTask effs.
        handle failing ctx0 template0 store1 (PostTask ''d1'' newTaskBody)
          = (st', Json 201 (Some (dao1\<lparr>d_tasks := d_tasks dao1 @ [newTask],
               d_updatedAt := now ctx0\<rparr>)), effs)
        \<and> getDaoById st' ''d1'' = Some (dao1\<lparr>d_tasks := d_tasks dao1 @ [newTask],
               d_updatedAt := now ctx0\<rparr>)
        \<and> t_name newTask = ''Devis''"
    unfolding p5 by blast
  from T p4 have c6: "\<exists>st' effs.
        handle failing ctx0 template0 store1 (PutTaskName ''d1'' (Some 2) ''Garantie'')
          = (st', Json 200 (Some (dao1\<lparr>d_tasks :=
                 [mkTask 1 ''Resume'',
                  (mkTask 2 ''Caution'')\<lparr>t_name := ''Garantie'',
                     t_lastUpdatedBy := Some ''u1'', t_lastUpdatedAt := Some (now ctx0)\<rparr>,
                  mkTask 3 ''Offre''],
               d_updatedAt := now ctx0\<rparr>)), effs)
        \<and> getDaoById st' ''d1'' = Some (dao1\<lparr>d_tasks :=
                 [mkTask 1 ''Resume'',
                  (mkTask 2 ''Caution'')\<lparr>t_name := ''Garantie'',
                     t_lastUpdatedBy := Some ''u1'', t_lastUpdatedAt := Some (now ctx0)\<rparr>,
                  mkTask 3 ''Offre''],
               d_updatedAt := now ctx0\<rparr>)"
    unfolding p6' by blast
  from T p7 have c7: "\<exists>st' effs.
        handle failing ctx0 template0 store1 (DeleteTask ''d1'' (Some 2))
          = (st', JsonDeleted 2 ''Caution''
               (Some (dao1\<lparr>d_tasks := [mkTask 1 ''Resume'', mkTask 3 ''Offre''],
                  d_updatedAt := now ctx0\<rparr>)), effs)
        \<and> getDaoById st' ''d1'' = Some (dao1\<lparr>d_tasks :=
                 [mkTask 1 ''Resume'', mkTask 3 ''Offre''], d_updatedAt := now ctx0\<rparr>)"
    using p7' by simp
  from f c1 c2 c3 c4 c5 c6 c7 show ?thesis by blast
qed

section \<open>The numbering allocator\<close>


























end
